theory Spec2Isabelle
  imports Main "HOL-Library.AList"
begin

section \<open>Course tabs (common/lib/xmodule/xmodule/tabs.py)\<close>

text \<open>
  A shallow embedding of the course tab module: the tab classes \<open>CourseTab\<close> and
  \<open>CourseViewTab\<close>, the list field \<open>CourseTabList\<close> and the validators.
  Exceptions are values of the type \<open>error\<close>; a function that can raise returns
  \<open>error + 'a\<close> with \<open>Inl\<close> for the exception.
\<close>

subsection \<open>Python values, dictionaries and exceptions\<close>

text \<open>
  The values a persisted tab record holds: \<open>None\<close>, booleans and strings. On these
  three Python's \<open>==\<close> is structural equality.
\<close>

datatype pyval = PNone | PBool bool | PStr string

fun truthy :: "pyval \<Rightarrow> bool" where
  "truthy PNone = False"
| "truthy (PBool b) = b"
| "truthy (PStr s) = (s \<noteq> [])"

datatype error = InvalidTabsException | KeyError | PluginError | AttributeError | TypeError

text \<open>
  A dict-type tab is an association list read through \<open>map_of\<close>; \<open>dict_get\<close> is
  \<open>d.get(key, default)\<close> and \<open>dict_getitem\<close> is \<open>d[key]\<close>.
\<close>

type_synonym tab_dict = "(string \<times> pyval) list"

definition dict_get :: "tab_dict \<Rightarrow> string \<Rightarrow> pyval \<Rightarrow> pyval" where
  "dict_get d k dflt = (case map_of d k of None \<Rightarrow> dflt | Some v \<Rightarrow> v)"

definition dict_getitem :: "tab_dict \<Rightarrow> string \<Rightarrow> error + pyval" where
  "dict_getitem d k = (case map_of d k of None \<Rightarrow> Inl KeyError | Some v \<Rightarrow> Inr v)"

definition and_then :: "error + 'a \<Rightarrow> ('a \<Rightarrow> error + 'b) \<Rightarrow> error + 'b" where
  "and_then r f = (case r of Inl e \<Rightarrow> Inl e | Inr v \<Rightarrow> f v)"

subsection \<open>Validators and link functions\<close>

definition key_checker :: "string list \<Rightarrow> tab_dict \<Rightarrow> bool \<Rightarrow> error + bool" where
  "key_checker expected_keys actual_dict raise_error =
     (let missing = set expected_keys - set (map fst actual_dict)
      in if missing = {} then Inr True
         else if raise_error then Inl InvalidTabsException
         else Inr False)"

definition need_name :: "tab_dict \<Rightarrow> bool \<Rightarrow> error + bool" where
  "need_name dictionary raise_error = key_checker [''name''] dictionary raise_error"

text \<open>
  A link function is one of the two closures the module builds:
  \<open>link_reverse_func reverse_name\<close> and \<open>link_value_func value\<close>.
\<close>

datatype link = link_reverse_func string | link_value_func pyval

subsection \<open>Tab types and tabs\<close>

text \<open>
  \<open>course_view_type\<close> holds what \<open>CourseViewTab\<close> reads from a course view type
  (the class \<open>CourseViewType\<close> is defined outside this module): the attributes
  \<open>name\<close>, \<open>title\<close>, \<open>view_name\<close>, \<open>is_hideable\<close>, the optional
  \<open>is_collection\<close> (read through \<open>hasattr\<close>), and the class methods
  \<open>is_enabled\<close>, \<open>validate\<close> and \<open>items\<close>. The type \<open>'c\<close> is the course as
  these methods receive it, \<open>'s\<close> the settings and \<open>'u\<close> the user.

  A tab is an instance of \<open>CourseViewTab\<close>, with the attributes its constructor
  sets, or of a class that inherits everything else from \<open>CourseTab\<close>: its
  \<open>type\<close> and the three constructor arguments, with the class properties
  \<open>is_hideable = False\<close> and \<open>is_collection = False\<close> of the base class.
\<close>

datatype ('c, 's, 'u) course_view_type = CourseViewType
    (view_type_name: string)
    (title: string)
    (view_name: string)
    (view_is_hideable: bool)
    (view_is_collection: "bool option")
    (view_is_enabled: "'c \<Rightarrow> 's \<Rightarrow> 'u option \<Rightarrow> bool")
    (view_validate: "tab_dict \<Rightarrow> bool \<Rightarrow> error + bool")
    (view_items: "'c \<Rightarrow> ('c, 's, 'u) course_tab list")
and ('c, 's, 'u) course_tab =
    CourseTab (type: string) (name: pyval) (tab_id: pyval) (link_func: link)
  | CourseViewTab (name: pyval) (tab_id: pyval) (link_func: link) (type: string)
      (course_view_type: "('c, 's, 'u) course_view_type")
      (is_hideable: bool) (hidden_attr: pyval) (is_collection: bool)
where
  "is_hideable (CourseTab ty n i l) = False"
| "is_collection (CourseTab ty n i l) = False"

text \<open>The attribute \<open>is_hidden\<close> and the method \<open>items\<close> exist on \<open>CourseViewTab\<close> only.\<close>

fun is_hidden :: "('c, 's, 'u) course_tab \<Rightarrow> error + pyval" where
  "is_hidden (CourseTab ty n i l) = Inl AttributeError"
| "is_hidden (CourseViewTab n i l ty cvt hideable hidden coll) = Inr hidden"

fun items :: "('c, 's, 'u) course_tab \<Rightarrow> 'c \<Rightarrow> error + ('c, 's, 'u) course_tab list" where
  "items (CourseTab ty n i l) course = Inl AttributeError"
| "items (CourseViewTab n i l ty cvt hideable hidden coll) course = Inr (view_items cvt course)"

definition CourseViewTab_init ::
  "('c, 's, 'u) course_view_type \<Rightarrow> tab_dict option \<Rightarrow> ('c, 's, 'u) course_tab" where
  "CourseViewTab_init cvt tab_dict =
     (let given = (case tab_dict of None \<Rightarrow> [] | Some d \<Rightarrow> d)
      in CourseViewTab
           (if given \<noteq> [] then dict_get given ''name'' (PStr (title cvt)) else PStr (title cvt))
           (PStr (view_type_name cvt))
           (link_reverse_func (view_name cvt))
           (view_type_name cvt)
           cvt
           (view_is_hideable cvt)
           (if given \<noteq> [] then dict_get given ''is_hidden'' (PBool False) else PBool False)
           (case view_is_collection cvt of Some b \<Rightarrow> b | None \<Rightarrow> False))"

fun is_enabled :: "('c, 's, 'u) course_tab \<Rightarrow> 'c \<Rightarrow> 's \<Rightarrow> 'u option \<Rightarrow> bool" where
  "is_enabled (CourseTab ty n i l) course settings user = True"
| "is_enabled (CourseViewTab n i l ty cvt hideable hidden coll) course settings user =
     (if \<not> True then False else view_is_enabled cvt course settings user)"

fun CourseTab_to_json :: "('c, 's, 'u) course_tab \<Rightarrow> tab_dict" where
  "CourseTab_to_json (CourseTab ty n i l) = [(''type'', PStr ty), (''name'', n)]"
| "CourseTab_to_json (CourseViewTab n i l ty cvt hideable hidden coll) =
     (let to_json_val = [(''type'', PStr ty), (''name'', n)]
      in if truthy hidden then AList.update ''is_hidden'' (PBool True) to_json_val
         else to_json_val)"

fun getitem :: "('c, 's, 'u) course_tab \<Rightarrow> string \<Rightarrow> error + pyval" where
  "getitem (CourseTab ty n i l) key =
     (if key = ''name'' then Inr n
      else if key = ''type'' then Inr (PStr ty)
      else if key = ''tab_id'' then Inr i
      else Inl KeyError)"
| "getitem (CourseViewTab n i l ty cvt hideable hidden coll) key =
     (if key = ''is_hidden'' then Inr hidden
      else getitem (CourseTab ty n i l) key)"

fun setitem :: "('c, 's, 'u) course_tab \<Rightarrow> string \<Rightarrow> pyval \<Rightarrow> error + ('c, 's, 'u) course_tab" where
  "setitem (CourseTab ty n i l) key v =
     (if key = ''name'' then Inr (CourseTab ty v i l)
      else if key = ''tab_id'' then Inr (CourseTab ty n v l)
      else Inl KeyError)"
| "setitem (CourseViewTab n i l ty cvt hideable hidden coll) key v =
     (if key = ''is_hidden'' then Inr (CourseViewTab n i l ty cvt hideable v coll)
      else if key = ''name'' then Inr (CourseViewTab v i l ty cvt hideable hidden coll)
      else if key = ''tab_id'' then Inr (CourseViewTab n v l ty cvt hideable hidden coll)
      else Inl KeyError)"

text \<open>\<open>get\<close> catches the \<open>KeyError\<close> of \<open>self[key]\<close> and nothing else.\<close>

definition get :: "('c, 's, 'u) course_tab \<Rightarrow> string \<Rightarrow> pyval \<Rightarrow> error + pyval" where
  "get tab key dflt =
     (case getitem tab key of
        Inl KeyError \<Rightarrow> Inr dflt
      | Inl e \<Rightarrow> Inl e
      | Inr v \<Rightarrow> Inr v)"

definition validate :: "tab_dict \<Rightarrow> bool \<Rightarrow> error + bool" where
  "validate tab_dict raise_error = key_checker [''type''] tab_dict raise_error"

subsection \<open>Equality of tabs\<close>

text \<open>
  The other side of a comparison, and an element of a list under validation, is a tab
  object or a dict-type tab; both answer \<open>get\<close> and indexing.
\<close>

datatype ('c, 's, 'u) tab_like = TabObj "('c, 's, 'u) course_tab" | DictObj tab_dict

fun like_get :: "('c, 's, 'u) tab_like \<Rightarrow> string \<Rightarrow> error + pyval" where
  "like_get (TabObj t) key = get t key PNone"
| "like_get (DictObj d) key = Inr (dict_get d key PNone)"

fun like_getitem :: "('c, 's, 'u) tab_like \<Rightarrow> string \<Rightarrow> error + pyval" where
  "like_getitem (TabObj t) key = getitem t key"
| "like_getitem (DictObj d) key = dict_getitem d key"

definition eq :: "('c, 's, 'u) course_tab \<Rightarrow> ('c, 's, 'u) tab_like \<Rightarrow> error + bool" where
  "eq self other =
     and_then
       (case other of
          DictObj d \<Rightarrow> and_then (validate d False) (\<lambda>ok. Inr (\<not> ok))
        | TabObj t \<Rightarrow> Inr False)
       (\<lambda>did_not_validate.
          if did_not_validate then Inr False
          else
            and_then
              (and_then (like_get other ''name'')
                 (\<lambda>n. if n = PNone then Inr True
                      else and_then (like_getitem other ''name'') (\<lambda>n'. Inr (name self = n'))))
              (\<lambda>name_is_eq.
                 and_then (like_get other ''type'')
                   (\<lambda>ty. Inr (PStr (type self) = ty \<and> name_is_eq))))"

definition ne :: "('c, 's, 'u) course_tab \<Rightarrow> ('c, 's, 'u) tab_like \<Rightarrow> error + bool" where
  "ne self other = and_then (eq self other) (\<lambda>b. Inr (\<not> b))"

text \<open>
  The \<open>type\<close> and \<open>name\<close> values of either kind of tab, \<open>None\<close> when a dict-type
  tab has no such key; used to state properties.
\<close>

fun like_type :: "('c, 's, 'u) tab_like \<Rightarrow> pyval" where
  "like_type (TabObj t) = PStr (type t)"
| "like_type (DictObj d) = dict_get d ''type'' PNone"

fun like_name :: "('c, 's, 'u) tab_like \<Rightarrow> pyval" where
  "like_name (TabObj t) = name t"
| "like_name (DictObj d) = dict_get d ''name'' PNone"

subsection \<open>Validation of a tab list\<close>

fun count_tabs_of_type :: "('c, 's, 'u) tab_like list \<Rightarrow> string \<Rightarrow> error + nat" where
  "count_tabs_of_type [] tab_type = Inr 0"
| "count_tabs_of_type (tab # rest) tab_type =
     and_then (like_get tab ''type'')
       (\<lambda>v. and_then (count_tabs_of_type rest tab_type)
              (\<lambda>n. Inr ((if v = PStr tab_type then 1 else 0) + n)))"

definition validate_num_tabs_of_type ::
  "('c, 's, 'u) tab_like list \<Rightarrow> string \<Rightarrow> nat \<Rightarrow> error + unit" where
  "validate_num_tabs_of_type tab_list tab_type max_num =
     and_then (count_tabs_of_type tab_list tab_type)
       (\<lambda>count. if count > max_num then Inl InvalidTabsException else Inr ())"

fun validate_each_type :: "('c, 's, 'u) tab_like list \<Rightarrow> string list \<Rightarrow> error + unit" where
  "validate_each_type tab_list [] = Inr ()"
| "validate_each_type tab_list (tab_type # rest) =
     and_then (validate_num_tabs_of_type tab_list tab_type 1)
       (\<lambda>_. validate_each_type tab_list rest)"

definition validate_tabs :: "('c, 's, 'u) tab_like list option \<Rightarrow> error + unit" where
  "validate_tabs tab_list =
     (case tab_list of
        None \<Rightarrow> Inr ()
      | Some ts \<Rightarrow>
          if length ts = 0 then Inr ()
          else if length ts < 2 then Inl InvalidTabsException
          else
            and_then (like_get (ts ! 0) ''type'')
              (\<lambda>first. if first \<noteq> PStr ''courseware'' then Inl InvalidTabsException
                 else
                   and_then (like_get (ts ! 1) ''type'')
                     (\<lambda>second. if second \<noteq> PStr ''course_info'' then Inl InvalidTabsException
                        else validate_each_type ts
                               [''courseware'', ''course_info'', ''notes'', ''textbooks'',
                                ''pdf_textbooks'', ''html_textbooks''])))"

subsection \<open>The registry of tab types\<close>

text \<open>
  What \<open>CourseTab.from_json\<close> finds under a type name is a course view type (a
  subclass of \<open>CourseViewType\<close>) or another class called with \<open>tab_dict\<close>. Such a
  class is defined outside this module; it is given by its \<open>type\<close>, its \<open>validate\<close>
  method and the three arguments its constructor passes to \<open>CourseTab.__init__\<close>.
\<close>

datatype ('c, 's, 'u) plugin =
    ViewType "('c, 's, 'u) course_view_type"
  | TabClass string "tab_dict \<Rightarrow> bool \<Rightarrow> error + bool" "tab_dict \<Rightarrow> error + pyval \<times> pyval \<times> link"

fun plugin_name :: "('c, 's, 'u) plugin \<Rightarrow> string" where
  "plugin_name (ViewType cvt) = view_type_name cvt"
| "plugin_name (TabClass ty v init) = ty"

fun plugin_validate :: "('c, 's, 'u) plugin \<Rightarrow> tab_dict \<Rightarrow> bool \<Rightarrow> error + bool" where
  "plugin_validate (ViewType cvt) = view_validate cvt"
| "plugin_validate (TabClass ty v init) = v"

text \<open>
  Modelled from the spec: \<open>CourseViewTypeManager.get_plugin\<close> is not part of this
  module. The registry is a table of descriptors keyed by their type name; the lookup
  of a name that no descriptor carries fails (\<open>PluginError\<close>), as does the lookup of a
  value that is not a string.
\<close>

fun get_plugin :: "('c, 's, 'u) plugin list \<Rightarrow> pyval \<Rightarrow> error + ('c, 's, 'u) plugin" where
  "get_plugin registry (PStr n) =
     (case find (\<lambda>p. plugin_name p = n) registry of
        None \<Rightarrow> Inl PluginError
      | Some p \<Rightarrow> Inr p)"
| "get_plugin registry v = Inl PluginError"

subsection \<open>Deserialization of one tab\<close>

text \<open>
  A call that writes to the log returns the logged values (the unknown type names, in
  order) beside its outcome; \<open>log_then\<close> runs a second call after a first that did
  not raise and joins their logs.
\<close>

type_synonym 'a logged = "pyval list \<times> (error + 'a)"

definition log_then :: "'a logged \<Rightarrow> ('a \<Rightarrow> 'b logged) \<Rightarrow> 'b logged" where
  "log_then m f =
     (case m of
        (lg, Inl e) \<Rightarrow> (lg, Inl e)
      | (lg, Inr v) \<Rightarrow> (case f v of (lg', r) \<Rightarrow> (lg @ lg', r)))"

definition CourseTab_from_json ::
  "('c, 's, 'u) plugin list \<Rightarrow> tab_dict \<Rightarrow> ('c, 's, 'u) course_tab option logged" where
  "CourseTab_from_json registry tab_dict =
     (let tab_type_name = dict_get tab_dict ''type'' PNone
      in case get_plugin registry tab_type_name of
           Inl PluginError \<Rightarrow> ([tab_type_name], Inr None)
         | Inl e \<Rightarrow> ([], Inl e)
         | Inr tab_type \<Rightarrow>
             ([], and_then (plugin_validate tab_type tab_dict True)
                    (\<lambda>_. case tab_type of
                            ViewType cvt \<Rightarrow> Inr (Some (CourseViewTab_init cvt (Some tab_dict)))
                          | TabClass ty v init \<Rightarrow>
                              and_then (init tab_dict)
                                (\<lambda>(n, i, l). Inr (Some (CourseTab ty n i l))))))"

text \<open>
  A record has a known type when some registered descriptor carries the value of its
  \<open>type\<close> key as its name. Used to state properties.
\<close>

definition known_type :: "('c, 's, 'u) plugin list \<Rightarrow> tab_dict \<Rightarrow> bool" where
  "known_type registry tab_dict =
     (\<exists>p \<in> set registry. PStr (plugin_name p) = dict_get tab_dict ''type'' PNone)"

text \<open>
  The registry accepts a record when \<open>CourseTab.from_json\<close> returns a tab for it:
  its type is registered, the validator of the type passes and the constructor does
  not raise. Used to state properties.
\<close>

definition accepts :: "('c, 's, 'u) plugin list \<Rightarrow> tab_dict \<Rightarrow> bool" where
  "accepts registry tab_dict =
     (case snd (CourseTab_from_json registry tab_dict) of
        Inr (Some t) \<Rightarrow> True
      | _ \<Rightarrow> False)"

subsection \<open>Serialization and deserialization of the list\<close>

text \<open>A value handed to \<open>CourseTabList.to_json\<close>: a tab, a dict, or anything else.\<close>

datatype ('c, 's, 'u) entry =
    TabEntry "('c, 's, 'u) course_tab"
  | DictEntry tab_dict
  | OtherEntry pyval

fun to_json_loop :: "('c, 's, 'u) entry list \<Rightarrow> tab_dict list" where
  "to_json_loop [] = []"
| "to_json_loop (TabEntry t # rest) = CourseTab_to_json t # to_json_loop rest"
| "to_json_loop (DictEntry d # rest) = d # to_json_loop rest"
| "to_json_loop (OtherEntry v # rest) = to_json_loop rest"

definition CourseTabList_to_json :: "('c, 's, 'u) entry list option \<Rightarrow> tab_dict list" where
  "CourseTabList_to_json vals =
     (case vals of
        None \<Rightarrow> []
      | Some vs \<Rightarrow> if vs \<noteq> [] then to_json_loop vs else [])"

fun from_json_loop ::
  "('c, 's, 'u) plugin list \<Rightarrow> tab_dict list \<Rightarrow> ('c, 's, 'u) course_tab list logged" where
  "from_json_loop registry [] = ([], Inr [])"
| "from_json_loop registry (tab_dict # rest) =
     log_then (CourseTab_from_json registry tab_dict)
       (\<lambda>tab. log_then (from_json_loop registry rest)
                (\<lambda>more. ([], Inr (case tab of None \<Rightarrow> more | Some t \<Rightarrow> t # more))))"

definition CourseTabList_from_json ::
  "('c, 's, 'u) plugin list \<Rightarrow> tab_dict list option \<Rightarrow> ('c, 's, 'u) course_tab list logged" where
  "CourseTabList_from_json registry vals =
     (case validate_tabs (map_option (map (DictObj :: tab_dict \<Rightarrow> ('c, 's, 'u) tab_like)) vals) of
        Inl e \<Rightarrow> ([], Inl e)
      | Inr _ \<Rightarrow>
          (case vals of
             None \<Rightarrow> ([], Inl TypeError)
           | Some vs \<Rightarrow> from_json_loop registry vs))"

text \<open>
  A tab has a known, valid type when its type is registered, the validator of the
  type passes on the tab's serialized record, and, where the type is a class of its
  own, the constructor of the class does not raise on that record and takes the name
  from it. Used to state properties.
\<close>

definition known_valid :: "('c, 's, 'u) plugin list \<Rightarrow> ('c, 's, 'u) course_tab \<Rightarrow> bool" where
  "known_valid registry t =
     (case get_plugin registry (PStr (type t)) of
        Inl e \<Rightarrow> False
      | Inr p \<Rightarrow>
          (case plugin_validate p (CourseTab_to_json t) True of
             Inl e \<Rightarrow> False
           | Inr ok \<Rightarrow>
               (case p of
                  ViewType cvt \<Rightarrow> True
                | TabClass ty v init \<Rightarrow>
                    (case init (CourseTab_to_json t) of
                       Inl e \<Rightarrow> False
                     | Inr (n, i, l) \<Rightarrow> n = name t))))"

subsection \<open>The course and its tabs\<close>

text \<open>
  The course attributes the module reads: \<open>tabs\<close>, \<open>discussion_link\<close>,
  \<open>syllabus_present\<close> (\<open>None\<close> when the course has no such attribute) and the
  string form of \<open>id\<close>. The methods of the tab types are defined elsewhere and take the
  course as an argument; \<open>descriptor\<close> is the course as they see it.
\<close>

record ('c, 's, 'u) course =
  descriptor :: 'c
  course_id :: string
  tabs :: "('c, 's, 'u) course_tab list"
  discussion_link :: pyval
  syllabus_present :: "pyval option"

definition call_link ::
  "link \<Rightarrow> ('c, 's, 'u) course \<Rightarrow> (string \<Rightarrow> string list \<Rightarrow> pyval) \<Rightarrow> pyval" where
  "call_link f course reverse_url_func =
     (case f of
        link_reverse_func reverse_name \<Rightarrow> reverse_url_func reverse_name [course_id course]
      | link_value_func v \<Rightarrow> v)"

text \<open>
  \<open>initialize_default\<close> returns the contents of \<open>course.tabs\<close> after the call; an entry
  is \<open>None\<close> where \<open>CourseTab.from_json\<close> returned no tab.
\<close>

definition initialize_default ::
  "('c, 's, 'u) plugin list \<Rightarrow> ('c, 's, 'u) course \<Rightarrow> ('c, 's, 'u) course_tab option list logged" where
  "initialize_default registry course =
     log_then (CourseTab_from_json registry [(''type'', PStr ''courseware''), (''name'', PStr ''Courseware'')])
      (\<lambda>courseware.
     log_then (CourseTab_from_json registry [(''type'', PStr ''course_info''), (''name'', PStr ''Course Info'')])
      (\<lambda>course_info.
     log_then
       (if (case syllabus_present course of None \<Rightarrow> False | Some v \<Rightarrow> truthy v)
        then log_then (CourseTab_from_json registry [(''type'', PStr ''syllabus''), (''name'', PStr ''Syllabus'')])
               (\<lambda>syllabus. ([], Inr (map Some (tabs course) @ [courseware, course_info] @ [syllabus])))
        else ([], Inr (map Some (tabs course) @ [courseware, course_info])))
      (\<lambda>extended.
     log_then
       (if truthy (discussion_link course)
        then CourseTab_from_json registry
               [(''type'', PStr ''external_discussion''), (''name'', PStr ''External Discussion''),
                (''link'', discussion_link course)]
        else CourseTab_from_json registry [(''type'', PStr ''discussion''), (''name'', PStr ''Discussion'')])
      (\<lambda>discussion_tab.
     log_then (CourseTab_from_json registry [(''type'', PStr ''textbooks''), (''name'', PStr ''Textbooks'')])
      (\<lambda>textbooks.
     log_then (CourseTab_from_json registry [(''type'', PStr ''wiki''), (''name'', PStr ''Wiki'')])
      (\<lambda>wiki.
     log_then (CourseTab_from_json registry [(''type'', PStr ''progress''), (''name'', PStr ''Progress'')])
      (\<lambda>progress.
        ([], Inr (extended @ [textbooks, discussion_tab, wiki, progress])))))))))"

fun first_discussion_tab :: "('c, 's, 'u) course_tab list \<Rightarrow> ('c, 's, 'u) course_tab option" where
  "first_discussion_tab [] = None"
| "first_discussion_tab (tab # rest) =
     (if type tab = ''discussion'' \<or> type tab = ''external_discussion'' then Some tab
      else first_discussion_tab rest)"

definition get_discussion ::
  "('c, 's, 'u) plugin list \<Rightarrow> ('c, 's, 'u) course \<Rightarrow> ('c, 's, 'u) course_tab option logged" where
  "get_discussion registry course =
     (if truthy (discussion_link course)
      then CourseTab_from_json registry
             [(''type'', PStr ''external_discussion''), (''name'', PStr ''External Discussion''),
              (''link'', discussion_link course)]
      else ([], Inr (first_discussion_tab (tabs course))))"

text \<open>
  Modelled from the spec: the tab class registered under \<open>external_discussion\<close> is
  defined outside this module. Its tab carries the record's name, and its link resolver
  is the fixed literal the record gives under \<open>link\<close>.
\<close>

definition ExternalDiscussionTab :: "('c, 's, 'u) plugin" where
  "ExternalDiscussionTab =
     TabClass ''external_discussion''
       (key_checker [''name'', ''link''])
       (\<lambda>tab_dict.
          and_then (dict_getitem tab_dict ''name'')
            (\<lambda>n. and_then (dict_getitem tab_dict ''link'')
                   (\<lambda>l. Inr (n, PNone, link_value_func l))))"

subsection \<open>Displayable tabs\<close>

text \<open>
  \<open>displayable\<close> is the body of the loop of \<open>iterate_displayable\<close>: what one stored tab
  yields. The generator is modelled by the list of everything it yields.
\<close>

definition displayable ::
  "('c, 's, 'u) course \<Rightarrow> 's \<Rightarrow> 'u option \<Rightarrow> bool \<Rightarrow> ('c, 's, 'u) course_tab
     \<Rightarrow> error + ('c, 's, 'u) course_tab list" where
  "displayable course settings user inline_collections tab =
     and_then
       (if \<not> is_enabled tab (descriptor course) settings user then Inr False
        else if user = None then Inr True
        else if \<not> is_hideable tab then Inr True
        else and_then (is_hidden tab) (\<lambda>h. Inr (\<not> truthy h)))
       (\<lambda>shown.
          if shown then
            (if is_collection tab then
               (if inline_collections then items tab (descriptor course)
                else and_then (items tab (descriptor course))
                       (\<lambda>its. if length its > 0 then Inr [tab] else Inr []))
             else Inr [tab])
          else Inr [])"

fun iterate_loop ::
  "('c, 's, 'u) course \<Rightarrow> 's \<Rightarrow> 'u option \<Rightarrow> bool \<Rightarrow> ('c, 's, 'u) course_tab list
     \<Rightarrow> error + ('c, 's, 'u) course_tab list" where
  "iterate_loop course settings user inline_collections [] = Inr []"
| "iterate_loop course settings user inline_collections (tab # rest) =
     and_then (displayable course settings user inline_collections tab)
       (\<lambda>yielded. and_then (iterate_loop course settings user inline_collections rest)
                    (\<lambda>more. Inr (yielded @ more)))"

definition iterate_displayable ::
  "('c, 's, 'u) course \<Rightarrow> 's \<Rightarrow> 'u option \<Rightarrow> bool \<Rightarrow> error + ('c, 's, 'u) course_tab list" where
  "iterate_displayable course settings user inline_collections =
     iterate_loop course settings user inline_collections (tabs course)"

text \<open>
  The condition under which \<open>iterate_displayable\<close> lets a stored tab through: the tab
  is enabled, and no user is supplied, or the tab is not hideable, or its \<open>is_hidden\<close>
  flag is false. Used to state properties.
\<close>

abbreviation passes ::
  "('c, 's, 'u) course \<Rightarrow> 's \<Rightarrow> 'u option \<Rightarrow> ('c, 's, 'u) course_tab \<Rightarrow> bool" where
  "passes course settings user tab \<equiv>
     is_enabled tab (descriptor course) settings user
     \<and> (user = None \<or> \<not> is_hideable tab \<or> (\<exists>h. is_hidden tab = Inr h \<and> \<not> truthy h))"

subsection \<open>Lookup helpers of the tab list\<close>

fun get_tab_by_slug ::
  "('c, 's, 'u) course_tab list \<Rightarrow> pyval \<Rightarrow> error + ('c, 's, 'u) course_tab option" where
  "get_tab_by_slug [] url_slug = Inr None"
| "get_tab_by_slug (tab # rest) url_slug =
     and_then (get tab ''url_slug'' PNone)
       (\<lambda>v. if v = url_slug then Inr (Some tab) else get_tab_by_slug rest url_slug)"

subsection \<open>Example values\<close>

text \<open>
  Concrete tab types, tabs and courses on which the properties below are
  evaluated. Course, settings and user carry no data of their own here.
\<close>

definition always_valid :: "tab_dict \<Rightarrow> bool \<Rightarrow> error + bool" where
  "always_valid tab_dict raise_error = Inr True"

definition wiki_type :: "(unit, unit, unit) course_view_type" where
  "wiki_type =
     CourseViewType ''wiki'' ''Wiki'' ''course_wiki'' True None
       (\<lambda>course settings user. True) always_valid (\<lambda>course. [])"

definition hidden_wiki_tab :: "(unit, unit, unit) course_tab" where
  "hidden_wiki_tab =
     CourseViewTab (PStr ''Wiki'') (PStr ''wiki'') (link_reverse_func ''course_wiki'') ''wiki''
       wiki_type True (PBool True) False"

definition courseware_tab :: "(unit, unit, unit) course_tab" where
  "courseware_tab =
     CourseTab ''courseware'' (PStr ''Courseware'') (PStr ''courseware'')
       (link_reverse_func ''courseware'')"

definition pdf_textbooks_type :: "(unit, unit, unit) course_view_type" where
  "pdf_textbooks_type =
     CourseViewType ''pdf_textbooks'' ''Textbooks'' ''pdf_book'' False (Some True)
       (\<lambda>course settings user. True) always_valid (\<lambda>course. [])"

definition pdf_textbooks_tab :: "(unit, unit, unit) course_tab" where
  "pdf_textbooks_tab = CourseViewTab_init pdf_textbooks_type None"

definition textbooks_type :: "(unit, unit, unit) course_view_type" where
  "textbooks_type =
     CourseViewType ''textbooks'' ''Textbooks'' ''book'' False (Some True)
       (\<lambda>course settings user. True) always_valid (\<lambda>course. [pdf_textbooks_tab])"

definition textbooks_tab :: "(unit, unit, unit) course_tab" where
  "textbooks_tab = CourseViewTab_init textbooks_type None"

definition book_tab :: "(unit, unit, unit) course_tab" where
  "book_tab =
     CourseTab ''single_textbook'' (PStr ''Book0'') (PStr ''htmltextbook/0'')
       (link_reverse_func ''html_book'')"

definition html_textbooks_type :: "(unit, unit, unit) course_view_type" where
  "html_textbooks_type =
     CourseViewType ''html_textbooks'' ''Textbooks'' ''html_book'' False (Some True)
       (\<lambda>course settings user. True) always_valid (\<lambda>course. [book_tab])"

definition html_textbooks_tab :: "(unit, unit, unit) course_tab" where
  "html_textbooks_tab = CourseViewTab_init html_textbooks_type None"

definition courseware_type :: "(unit, unit, unit) course_view_type" where
  "courseware_type =
     CourseViewType ''courseware'' ''Courseware'' ''courseware'' False None
       (\<lambda>course settings user. True) always_valid (\<lambda>course. [])"

definition course_info_type :: "(unit, unit, unit) course_view_type" where
  "course_info_type =
     CourseViewType ''course_info'' ''Course Info'' ''info'' False None
       (\<lambda>course settings user. True) always_valid (\<lambda>course. [])"

definition small_registry :: "(unit, unit, unit) plugin list" where
  "small_registry = [ViewType courseware_type, ViewType course_info_type, ViewType wiki_type]"

definition syllabus_type :: "(unit, unit, unit) course_view_type" where
  "syllabus_type =
     CourseViewType ''syllabus'' ''Syllabus'' ''syllabus'' False None
       (\<lambda>course settings user. True) always_valid (\<lambda>course. [])"

definition discussion_type :: "(unit, unit, unit) course_view_type" where
  "discussion_type =
     CourseViewType ''discussion'' ''Discussion'' ''forum'' False None
       (\<lambda>course settings user. True) need_name (\<lambda>course. [])"

definition progress_type :: "(unit, unit, unit) course_view_type" where
  "progress_type =
     CourseViewType ''progress'' ''Progress'' ''progress'' False None
       (\<lambda>course settings user. True) need_name (\<lambda>course. [])"

definition builtin_registry :: "(unit, unit, unit) plugin list" where
  "builtin_registry =
     [ViewType courseware_type, ViewType course_info_type, ViewType syllabus_type,
      ViewType textbooks_type, ViewType discussion_type, ExternalDiscussionTab,
      ViewType wiki_type, ViewType progress_type]"

definition course_with :: "(unit, unit, unit) course_tab list \<Rightarrow> pyval \<Rightarrow> (unit, unit, unit) course" where
  "course_with stored link =
     \<lparr>descriptor = (), course_id = ''edX/toy/2012_Fall'', tabs = stored,
      discussion_link = link, syllabus_present = None\<rparr>"

section \<open>Properties\<close>

subsection \<open>Key access\<close>

lemma get_unsupported_key:
  "key \<noteq> ''name'' \<Longrightarrow> key \<noteq> ''type'' \<Longrightarrow> key \<noteq> ''tab_id'' \<Longrightarrow> key \<noteq> ''is_hidden'' \<Longrightarrow>
   get tab key dflt = Inr dflt"
  by (cases tab) (simp_all add: get_def)

lemma get_type: "get tab ''type'' dflt = Inr (PStr (type tab))"
  by (cases tab) (simp_all add: get_def)

lemma get_name: "get tab ''name'' dflt = Inr (name tab)"
  by (cases tab) (simp_all add: get_def)

lemma get_tab_by_slug_not_None:
  "url_slug \<noteq> PNone \<Longrightarrow> get_tab_by_slug tab_list url_slug = Inr None"
  by (induction tab_list) (simp_all add: get_unsupported_key and_then_def)

text \<open>
  C10. No tab of this module supports the key \<open>url_slug\<close>, so \<open>get\<close> gives the default
  \<open>None\<close> for it and \<open>get_tab_by_slug\<close> never raises: it finds nothing for a slug
  other than \<open>None\<close>, and for the slug \<open>None\<close> it returns the first tab of a non-empty
  list (and nothing for the empty list).
\<close>

theorem get_tab_by_slug_total:
  "get tab ''url_slug'' PNone = Inr PNone
   \<and> (url_slug \<noteq> PNone \<longrightarrow> get_tab_by_slug tab_list url_slug = Inr None)
   \<and> get_tab_by_slug (tab # tab_list) PNone = Inr (Some tab)
   \<and> get_tab_by_slug [] url_slug = Inr None"
  by (simp add: get_unsupported_key get_tab_by_slug_not_None and_then_def)

theorem get_tab_by_slug_total_witness:
  "get_tab_by_slug
     [CourseTab ''static_tab'' (PStr ''Resources'') PNone (link_value_func (PStr ''/r'')),
      CourseTab ''wiki'' (PStr ''Wiki'') PNone (link_value_func PNone)]
     (PStr ''resources'') = Inr None
   \<and> get_tab_by_slug
     [CourseTab ''static_tab'' (PStr ''Resources'') PNone (link_value_func (PStr ''/r'')),
      CourseTab ''wiki'' (PStr ''Wiki'') PNone (link_value_func PNone)]
     PNone
     = Inr (Some (CourseTab ''static_tab'' (PStr ''Resources'') PNone (link_value_func (PStr ''/r''))))"
  using get_tab_by_slug_total
    [of "CourseTab ''static_tab'' (PStr ''Resources'') PNone (link_value_func (PStr ''/r''))"
        "PStr ''resources''"
        "[CourseTab ''wiki'' (PStr ''Wiki'') PNone (link_value_func PNone)]"]
  by (simp add: get_def and_then_def)

subsection \<open>Validation\<close>

lemma like_get_type: "like_get tab ''type'' = Inr (like_type tab)"
  by (cases tab) (simp_all add: get_type)

lemma like_get_name: "like_get tab ''name'' = Inr (like_name tab)"
  by (cases tab) (simp_all add: get_name)

lemma count_tabs_of_type_filter:
  "count_tabs_of_type tab_list tab_type =
     Inr (length (filter (\<lambda>tab. like_type tab = PStr tab_type) tab_list))"
  by (induction tab_list) (simp_all add: like_get_type and_then_def)

lemma validate_num_tabs_of_type_iff:
  "validate_num_tabs_of_type tab_list tab_type max_num =
     (if length (filter (\<lambda>tab. like_type tab = PStr tab_type) tab_list) \<le> max_num
      then Inr () else Inl InvalidTabsException)"
  by (simp add: validate_num_tabs_of_type_def count_tabs_of_type_filter and_then_def)

lemma validate_each_type_iff:
  "validate_each_type tab_list tab_types =
     (if \<forall>tab_type \<in> set tab_types.
           length (filter (\<lambda>tab. like_type tab = PStr tab_type) tab_list) \<le> 1
      then Inr () else Inl InvalidTabsException)"
  by (induction tab_types) (simp_all add: validate_num_tabs_of_type_iff and_then_def)

text \<open>
  C1. \<open>validate_tabs\<close> passes on \<open>None\<close> and on the empty list. On a non-empty list
  it passes exactly when the list has at least two entries, entry 0 has type
  \<open>courseware\<close>, entry 1 has type \<open>course_info\<close> and none of the six singleton
  types occurs more than once. Whenever it does not pass it raises
  \<open>InvalidTabsException\<close>.
\<close>

theorem validate_tabs_iff:
  "validate_tabs None = Inr ()
   \<and> validate_tabs (Some []) = Inr ()
   \<and> (ts \<noteq> [] \<longrightarrow>
        (validate_tabs (Some ts) = Inr () \<longleftrightarrow>
           2 \<le> length ts
           \<and> like_type (ts ! 0) = PStr ''courseware''
           \<and> like_type (ts ! 1) = PStr ''course_info''
           \<and> (\<forall>tab_type \<in> {''courseware'', ''course_info'', ''notes'', ''textbooks'',
                            ''pdf_textbooks'', ''html_textbooks''}.
                 length (filter (\<lambda>tab. like_type tab = PStr tab_type) ts) \<le> 1)))
   \<and> (validate_tabs tab_list = Inr () \<or> validate_tabs tab_list = Inl InvalidTabsException)"
proof -
  have total: "validate_tabs tab_list = Inr () \<or> validate_tabs tab_list = Inl InvalidTabsException"
    by (cases tab_list) (simp_all add: validate_tabs_def like_get_type validate_each_type_iff and_then_def)
  have iff: "ts \<noteq> [] \<longrightarrow>
        (validate_tabs (Some ts) = Inr () \<longleftrightarrow>
           2 \<le> length ts
           \<and> like_type (ts ! 0) = PStr ''courseware''
           \<and> like_type (ts ! 1) = PStr ''course_info''
           \<and> (\<forall>tab_type \<in> {''courseware'', ''course_info'', ''notes'', ''textbooks'',
                            ''pdf_textbooks'', ''html_textbooks''}.
                 length (filter (\<lambda>tab. like_type tab = PStr tab_type) ts) \<le> 1))"
    by (simp add: validate_tabs_def like_get_type validate_each_type_iff and_then_def)
  show ?thesis using total iff by (simp add: validate_tabs_def)
qed

theorem validate_tabs_iff_witness:
  "validate_tabs (Some [DictObj [(''type'', PStr ''courseware'')],
                        DictObj [(''type'', PStr ''course_info''), (''name'', PStr ''Info'')]]) = Inr ()
   \<and> validate_tabs (Some [DictObj [(''type'', PStr ''course_info'')],
                        DictObj [(''type'', PStr ''courseware'')]]) = Inl InvalidTabsException"
  using validate_tabs_iff
    [of "[DictObj [(''type'', PStr ''courseware'')],
          DictObj [(''type'', PStr ''course_info''), (''name'', PStr ''Info'')]]"
        "Some [DictObj [(''type'', PStr ''course_info'')], DictObj [(''type'', PStr ''courseware'')]]"]
  by (simp add: validate_tabs_def dict_get_def and_then_def)

subsection \<open>Equality\<close>

lemma validate_iff:
  "validate d False = Inr (''type'' \<in> set (map fst d))"
  by (simp add: validate_def key_checker_def)

lemma getitem_name: "getitem t ''name'' = Inr (name t)"
  by (cases t) simp_all

lemma dict_getitem_name:
  "dict_get d ''name'' PNone \<noteq> PNone \<Longrightarrow> dict_getitem d ''name'' = Inr (dict_get d ''name'' PNone)"
  by (auto simp: dict_get_def dict_getitem_def split: option.splits)

lemma like_getitem_name:
  "like_name other \<noteq> PNone \<Longrightarrow> like_getitem other ''name'' = Inr (like_name other)"
  by (cases other) (simp_all add: getitem_name dict_getitem_name)

lemma eq_valid:
  "(case other of TabObj t \<Rightarrow> True | DictObj d \<Rightarrow> ''type'' \<in> set (map fst d)) \<Longrightarrow>
   eq self other =
     Inr (like_type other = PStr (type self)
          \<and> (like_name other = PNone \<or> like_name other = name self))"
proof -
  assume valid: "case other of TabObj t \<Rightarrow> True | DictObj d \<Rightarrow> ''type'' \<in> set (map fst d)"
  have first: "(case other of
          DictObj d \<Rightarrow> and_then (validate d False) (\<lambda>ok. Inr (\<not> ok))
        | TabObj t \<Rightarrow> Inr False) = Inr False"
    using valid by (cases other) (simp_all add: validate_iff and_then_def)
  show ?thesis
    unfolding eq_def first
    by (cases "like_name other = PNone")
       (auto simp: and_then_def like_get_type like_get_name like_getitem_name)
qed

lemma eq_invalid:
  "''type'' \<notin> set (map fst d) \<Longrightarrow> eq self (DictObj d) = Inr False"
  unfolding eq_def by (simp add: validate_iff and_then_def)

lemma setitem_type: "setitem t key v = Inr t' \<Longrightarrow> type t' = type t"
  by (cases t) (auto split: if_splits)

lemma setitem_name: "key \<noteq> ''name'' \<Longrightarrow> setitem t key v = Inr t' \<Longrightarrow> name t' = name t"
  by (cases t) (auto split: if_splits)

lemma eq_setitem_self:
  assumes "case other of TabObj t \<Rightarrow> True | DictObj d \<Rightarrow> ''type'' \<in> set (map fst d)"
    and "key = ''tab_id'' \<or> key = ''is_hidden''" and "setitem self key v = Inr self'"
  shows "eq self' other = eq self other"
  using assms setitem_type [of self key v self'] setitem_name [of key self v self']
  by (auto simp: eq_valid)

lemma eq_setitem_other:
  assumes "key = ''tab_id'' \<or> key = ''is_hidden''" and "setitem t key v = Inr t'"
  shows "eq self (TabObj t') = eq self (TabObj t)"
  using assms setitem_type [of t key v t'] setitem_name [of key t v t']
  by (auto simp: eq_valid)

lemma eq_update_other:
  assumes "key = ''tab_id'' \<or> key = ''is_hidden''"
  shows "eq self (DictObj (AList.update key v d)) = eq self (DictObj d)"
proof -
  have keys: "''type'' \<in> set (map fst (AList.update key v d)) \<longleftrightarrow> ''type'' \<in> set (map fst d)"
    using assms by (auto simp: dom_update)
  have vals: "dict_get (AList.update key v d) ''type'' PNone = dict_get d ''type'' PNone"
    "dict_get (AList.update key v d) ''name'' PNone = dict_get d ''name'' PNone"
    using assms by (auto simp: dict_get_def update_conv')
  show ?thesis
  proof (cases "''type'' \<in> set (map fst d)")
    case True
    then show ?thesis using keys vals by (simp add: eq_valid)
  next
    case False
    then show ?thesis using keys by (simp add: eq_invalid)
  qed
qed

text \<open>
  C8, as the code has it. For a tab and another tab or a dict-type tab with a \<open>type\<close>
  key, \<open>==\<close> holds exactly when the types match and the name of the other side is
  \<open>None\<close> or absent, or the two names match; a missing name on the left side alone
  does not make the two equal. \<open>!=\<close> is the negation of \<open>==\<close>, and setting
  \<open>tab_id\<close> or \<open>is_hidden\<close> on either side does not change the outcome.
\<close>

theorem eq_type_and_name:
  assumes "case other of TabObj t \<Rightarrow> True | DictObj d \<Rightarrow> ''type'' \<in> set (map fst d)"
  shows "eq self other =
           Inr (like_type other = PStr (type self)
                \<and> (like_name other = PNone \<or> like_name other = name self))
         \<and> ne self other =
           Inr (\<not> (like_type other = PStr (type self)
                   \<and> (like_name other = PNone \<or> like_name other = name self)))
         \<and> (\<forall>key v self'. (key = ''tab_id'' \<or> key = ''is_hidden'') \<longrightarrow>
               setitem self key v = Inr self' \<longrightarrow> eq self' other = eq self other)
         \<and> (\<forall>key v t t'. (key = ''tab_id'' \<or> key = ''is_hidden'') \<longrightarrow>
               setitem t key v = Inr t' \<longrightarrow> eq self (TabObj t') = eq self (TabObj t))
         \<and> (\<forall>key v d. (key = ''tab_id'' \<or> key = ''is_hidden'') \<longrightarrow>
               eq self (DictObj (AList.update key v d)) = eq self (DictObj d))"
proof -
  have e: "eq self other =
           Inr (like_type other = PStr (type self)
                \<and> (like_name other = PNone \<or> like_name other = name self))"
    using assms by (rule eq_valid)
  have n: "ne self other =
           Inr (\<not> (like_type other = PStr (type self)
                   \<and> (like_name other = PNone \<or> like_name other = name self)))"
    by (simp add: ne_def e and_then_def)
  have s: "\<forall>key v self'. (key = ''tab_id'' \<or> key = ''is_hidden'') \<longrightarrow>
               setitem self key v = Inr self' \<longrightarrow> eq self' other = eq self other"
    using assms eq_setitem_self by blast
  have t: "\<forall>key v t t'. (key = ''tab_id'' \<or> key = ''is_hidden'') \<longrightarrow>
               setitem t key v = Inr t' \<longrightarrow> eq self (TabObj t') = eq self (TabObj t)"
    using eq_setitem_other by blast
  have d: "\<forall>key v d. (key = ''tab_id'' \<or> key = ''is_hidden'') \<longrightarrow>
               eq self (DictObj (AList.update key v d)) = eq self (DictObj d)"
    using eq_update_other by blast
  show ?thesis by (rule conjI [OF e conjI [OF n conjI [OF s conjI [OF t d]]]])
qed

theorem eq_type_and_name_witness:
  "eq (CourseTab ''wiki'' (PStr ''Wiki'') (PStr ''wiki'') (link_reverse_func ''course_wiki'') :: (unit, unit, unit) course_tab)
      (DictObj [(''type'', PStr ''wiki'')]) = Inr True
   \<and> ne (CourseTab ''wiki'' (PStr ''Wiki'') (PStr ''wiki'') (link_reverse_func ''course_wiki'') :: (unit, unit, unit) course_tab)
      (DictObj [(''type'', PStr ''wiki'')]) = Inr False
   \<and> eq (CourseTab ''wiki'' (PStr ''Wiki'') (PStr ''other id'') (link_reverse_func ''course_wiki'') :: (unit, unit, unit) course_tab)
      (DictObj [(''type'', PStr ''wiki'')])
     = eq (CourseTab ''wiki'' (PStr ''Wiki'') (PStr ''wiki'') (link_reverse_func ''course_wiki'') :: (unit, unit, unit) course_tab)
      (DictObj [(''type'', PStr ''wiki'')])"
proof -
  have valid: "case DictObj [(''type'', PStr ''wiki'')] of TabObj t \<Rightarrow> True
               | DictObj d \<Rightarrow> ''type'' \<in> set (map fst d)"
    by simp
  have set_id: "setitem (CourseTab ''wiki'' (PStr ''Wiki'') (PStr ''wiki'') (link_reverse_func ''course_wiki'') :: (unit, unit, unit) course_tab) ''tab_id'' (PStr ''other id'')
                = Inr (CourseTab ''wiki'' (PStr ''Wiki'') (PStr ''other id'') (link_reverse_func ''course_wiki'') :: (unit, unit, unit) course_tab)"
    by simp
  note all = eq_type_and_name [OF valid, of "CourseTab ''wiki'' (PStr ''Wiki'') (PStr ''wiki'') (link_reverse_func ''course_wiki'') :: (unit, unit, unit) course_tab"]
  from all have outcome:
    "eq (CourseTab ''wiki'' (PStr ''Wiki'') (PStr ''wiki'') (link_reverse_func ''course_wiki'') :: (unit, unit, unit) course_tab) (DictObj [(''type'', PStr ''wiki'')]) = Inr True"
    "ne (CourseTab ''wiki'' (PStr ''Wiki'') (PStr ''wiki'') (link_reverse_func ''course_wiki'') :: (unit, unit, unit) course_tab) (DictObj [(''type'', PStr ''wiki'')]) = Inr False"
    by (simp_all add: dict_get_def)
  have frame:
    "eq (CourseTab ''wiki'' (PStr ''Wiki'') (PStr ''other id'') (link_reverse_func ''course_wiki'') :: (unit, unit, unit) course_tab) (DictObj [(''type'', PStr ''wiki'')])
     = eq (CourseTab ''wiki'' (PStr ''Wiki'') (PStr ''wiki'') (link_reverse_func ''course_wiki'') :: (unit, unit, unit) course_tab) (DictObj [(''type'', PStr ''wiki'')])"
    by (rule all [THEN conjunct2, THEN conjunct2, THEN conjunct1, rule_format, OF _ set_id]) simp
  show ?thesis by (rule conjI [OF outcome(1) conjI [OF outcome(2) frame]])
qed

theorem eq_name_absent_on_self_counterexample:
  "\<not> (eq (CourseTab ''wiki'' PNone (PStr ''wiki'') (link_reverse_func ''course_wiki'') :: (unit, unit, unit) course_tab)
          (DictObj [(''type'', PStr ''wiki''), (''name'', PStr ''Wiki'')]) = Inr True
       \<longleftrightarrow>
        like_type (DictObj [(''type'', PStr ''wiki''), (''name'', PStr ''Wiki'')])
          = PStr (type (CourseTab ''wiki'' PNone (PStr ''wiki'') (link_reverse_func ''course_wiki'') :: (unit, unit, unit) course_tab))
        \<and> (name (CourseTab ''wiki'' PNone (PStr ''wiki'') (link_reverse_func ''course_wiki'') :: (unit, unit, unit) course_tab) = PNone
             \<or> like_name (DictObj [(''type'', PStr ''wiki''), (''name'', PStr ''Wiki'')]) = PNone
             \<or> like_name (DictObj [(''type'', PStr ''wiki''), (''name'', PStr ''Wiki'')])
                 = name (CourseTab ''wiki'' PNone (PStr ''wiki'') (link_reverse_func ''course_wiki'') :: (unit, unit, unit) course_tab)))"
  by (simp add: eq_def validate_def key_checker_def and_then_def dict_get_def dict_getitem_def)

subsection \<open>Displayable tabs: the filter\<close>

lemma is_hideable_view:
  "is_hideable tab \<Longrightarrow> \<exists>h. is_hidden tab = Inr h"
  by (cases tab) simp_all

lemma is_collection_view:
  "is_collection tab \<Longrightarrow> items tab c = Inr (view_items (course_view_type tab) c)"
  by (cases tab) simp_all

lemma displayable_fails:
  "\<not> passes course settings user tab \<Longrightarrow>
   displayable course settings user inline_collections tab = Inr []"
  by (cases tab) (auto simp: displayable_def and_then_def)

lemma displayable_plain:
  "passes course settings user tab \<Longrightarrow> \<not> is_collection tab \<Longrightarrow>
   displayable course settings user inline_collections tab = Inr [tab]"
  by (cases tab) (auto simp: displayable_def and_then_def)

lemma displayable_inline:
  "passes course settings user tab \<Longrightarrow> is_collection tab \<Longrightarrow>
   displayable course settings user True tab = items tab (descriptor course)"
  by (cases tab) (auto simp: displayable_def and_then_def)

lemma displayable_not_inline:
  "passes course settings user tab \<Longrightarrow> is_collection tab \<Longrightarrow>
   displayable course settings user False tab =
     Inr (if view_items (course_view_type tab) (descriptor course) \<noteq> [] then [tab] else [])"
  by (cases tab) (auto simp: displayable_def and_then_def)

lemma displayable_total:
  "\<exists>ys. displayable course settings user inline_collections tab = Inr ys"
proof (cases "passes course settings user tab")
  case False
  then show ?thesis by (simp add: displayable_fails)
next
  case True
  show ?thesis
  proof (cases "is_collection tab")
    case False
    with True show ?thesis by (simp add: displayable_plain)
  next
    case coll: True
    show ?thesis
    proof (cases inline_collections)
      case True
      with \<open>passes course settings user tab\<close> coll show ?thesis
        by (simp add: displayable_inline is_collection_view)
    next
      case False
      with \<open>passes course settings user tab\<close> coll show ?thesis
        by (simp add: displayable_not_inline)
    qed
  qed
qed

lemma iterate_loop_pieces:
  "\<exists>pieces. length pieces = length ts
     \<and> (\<forall>i < length ts. displayable course settings user inline_collections (ts ! i) = Inr (pieces ! i))
     \<and> iterate_loop course settings user inline_collections ts = Inr (concat pieces)"
proof (induction ts)
  case Nil
  then show ?case by simp
next
  case (Cons tab rest)
  then obtain more where more: "length more = length rest"
    "\<forall>i < length rest. displayable course settings user inline_collections (rest ! i) = Inr (more ! i)"
    "iterate_loop course settings user inline_collections rest = Inr (concat more)"
    by blast
  obtain ys where ys: "displayable course settings user inline_collections tab = Inr ys"
    using displayable_total [of course settings user inline_collections tab] by auto
  have "length (ys # more) = length (tab # rest)" using more(1) by simp
  moreover have "\<forall>i < length (tab # rest).
      displayable course settings user inline_collections ((tab # rest) ! i) = Inr ((ys # more) ! i)"
    using more(2) ys by (auto simp: nth_Cons split: nat.splits)
  moreover have "iterate_loop course settings user inline_collections (tab # rest) = Inr (concat (ys # more))"
    using more(3) ys by (simp add: and_then_def)
  ultimately show ?case by blast
qed

lemma iterate_loop_filter:
  "\<forall>tab \<in> set ts. \<not> is_collection tab \<Longrightarrow>
   iterate_loop course settings user inline_collections ts
     = Inr (filter (passes course settings user) ts)"
proof (induction ts)
  case Nil
  then show ?case by simp
next
  case (Cons tab rest)
  then have rest: "iterate_loop course settings user inline_collections rest
     = Inr (filter (passes course settings user) rest)" by simp
  from Cons.prems have plain: "\<not> is_collection tab" by simp
  show ?case
  proof (cases "passes course settings user tab")
    case True
    then show ?thesis using rest plain
      by (simp add: displayable_plain and_then_def)
  next
    case False
    then show ?thesis using rest
      by (simp add: displayable_fails and_then_def)
  qed
qed


lemma displayable_member:
  assumes "displayable course settings user inline_collections tab = Inr p" and "t \<in> set p"
  shows "(t = tab \<and> passes course settings user tab
            \<and> (is_collection tab \<longrightarrow>
                  \<not> inline_collections \<and> view_items (course_view_type tab) (descriptor course) \<noteq> []))
         \<or> (inline_collections \<and> passes course settings user tab \<and> is_collection tab
            \<and> t \<in> set (view_items (course_view_type tab) (descriptor course)))"
proof (cases "passes course settings user tab")
  case False
  with assms show ?thesis by (simp add: displayable_fails)
next
  case pass: True
  show ?thesis
  proof (cases "is_collection tab")
    case False
    with pass assms show ?thesis by (auto simp: displayable_plain)
  next
    case coll: True
    show ?thesis
    proof (cases inline_collections)
      case True
      with pass coll assms show ?thesis
        by (simp add: displayable_inline is_collection_view)
    next
      case False
      with pass coll assms show ?thesis
        by (auto simp: displayable_not_inline split: if_splits)
    qed
  qed
qed

lemma iterate_loop_member:
  "iterate_loop course settings user inline_collections ts = Inr ys \<Longrightarrow> t \<in> set ys \<Longrightarrow>
   \<exists>tab \<in> set ts. \<exists>p. displayable course settings user inline_collections tab = Inr p \<and> t \<in> set p"
proof (induction ts arbitrary: ys)
  case Nil
  then show ?case by simp
next
  case (Cons tab rest)
  obtain p where p: "displayable course settings user inline_collections tab = Inr p"
    using displayable_total [of course settings user inline_collections tab] by auto
  obtain more where more: "iterate_loop course settings user inline_collections rest = Inr more"
    using iterate_loop_pieces [of rest course settings user inline_collections] by auto
  from Cons.prems(1) p more have ys: "ys = p @ more" by (simp add: and_then_def)
  with Cons.prems(2) have "t \<in> set p \<or> t \<in> set more" by simp
  then show ?case
  proof
    assume "t \<in> set p"
    with p show ?thesis by auto
  next
    assume "t \<in> set more"
    from Cons.IH [OF more this] show ?thesis by auto
  qed
qed

text \<open>
  C3, as the code has it. Every stored tab contributes one piece of the output, in
  the stored order. A tab that fails the condition (enabled, and no user supplied or
  not hideable or not hidden) contributes nothing; a tab that meets it and is not a
  collection contributes itself. So when no stored tab is a collection the output is
  the stored list filtered by the condition: a hidden hideable enabled tab is left
  out when a user is supplied and kept when none is. A collection tab that meets the
  condition need not be yielded itself.
\<close>

theorem iterate_displayable_filter:
  "(\<exists>pieces. length pieces = length (tabs course)
      \<and> iterate_displayable course settings user inline_collections = Inr (concat pieces)
      \<and> (\<forall>i < length (tabs course).
            (\<not> passes course settings user (tabs course ! i) \<longrightarrow> pieces ! i = [])
            \<and> (passes course settings user (tabs course ! i) \<and> \<not> is_collection (tabs course ! i)
                 \<longrightarrow> pieces ! i = [tabs course ! i])))
   \<and> ((\<forall>tab \<in> set (tabs course). \<not> is_collection tab) \<longrightarrow>
        iterate_displayable course settings user inline_collections
          = Inr (filter (passes course settings user) (tabs course)))"
proof (rule conjI)
  obtain pieces where pieces: "length pieces = length (tabs course)"
    "\<forall>i < length (tabs course).
        displayable course settings user inline_collections (tabs course ! i) = Inr (pieces ! i)"
    "iterate_loop course settings user inline_collections (tabs course) = Inr (concat pieces)"
    using iterate_loop_pieces [of "tabs course" course settings user inline_collections] by auto
  have "\<forall>i < length (tabs course).
            (\<not> passes course settings user (tabs course ! i) \<longrightarrow> pieces ! i = [])
            \<and> (passes course settings user (tabs course ! i) \<and> \<not> is_collection (tabs course ! i)
                 \<longrightarrow> pieces ! i = [tabs course ! i])"
  proof (intro allI impI)
    fix i assume "i < length (tabs course)"
    with pieces(2) have d: "displayable course settings user inline_collections (tabs course ! i)
        = Inr (pieces ! i)" by simp
    show "(\<not> passes course settings user (tabs course ! i) \<longrightarrow> pieces ! i = [])
            \<and> (passes course settings user (tabs course ! i) \<and> \<not> is_collection (tabs course ! i)
                 \<longrightarrow> pieces ! i = [tabs course ! i])"
      using d displayable_fails [where course = course and tab = "tabs course ! i"
            and settings = settings and user = user and inline_collections = inline_collections]
        displayable_plain [where course = course and tab = "tabs course ! i"
            and settings = settings and user = user and inline_collections = inline_collections]
      by auto
  qed
  with pieces(1,3) show "\<exists>pieces. length pieces = length (tabs course)
      \<and> iterate_displayable course settings user inline_collections = Inr (concat pieces)
      \<and> (\<forall>i < length (tabs course).
            (\<not> passes course settings user (tabs course ! i) \<longrightarrow> pieces ! i = [])
            \<and> (passes course settings user (tabs course ! i) \<and> \<not> is_collection (tabs course ! i)
                 \<longrightarrow> pieces ! i = [tabs course ! i]))"
    unfolding iterate_displayable_def by blast
next
  show "(\<forall>tab \<in> set (tabs course). \<not> is_collection tab) \<longrightarrow>
        iterate_displayable course settings user inline_collections
          = Inr (filter (passes course settings user) (tabs course))"
    unfolding iterate_displayable_def
    by (rule impI) (rule iterate_loop_filter)
qed


theorem iterate_displayable_filter_witness:
  "iterate_displayable (course_with [courseware_tab, hidden_wiki_tab] PNone) () (Some ()) True
     = Inr [courseware_tab]
   \<and> iterate_displayable (course_with [courseware_tab, hidden_wiki_tab] PNone) () None True
     = Inr [courseware_tab, hidden_wiki_tab]"
proof -
  have plain: "\<forall>tab \<in> set (tabs (course_with [courseware_tab, hidden_wiki_tab] PNone)).
                 \<not> is_collection tab"
    by (simp add: course_with_def courseware_tab_def hidden_wiki_tab_def)
  have user: "iterate_displayable (course_with [courseware_tab, hidden_wiki_tab] PNone) () (Some ()) True
     = Inr [courseware_tab]"
    using iterate_displayable_filter
      [of "course_with [courseware_tab, hidden_wiki_tab] PNone" "()" "Some ()" True,
       THEN conjunct2, THEN mp, OF plain]
    by (simp add: course_with_def courseware_tab_def hidden_wiki_tab_def wiki_type_def)
  have staff: "iterate_displayable (course_with [courseware_tab, hidden_wiki_tab] PNone) () None True
     = Inr [courseware_tab, hidden_wiki_tab]"
    using iterate_displayable_filter
      [of "course_with [courseware_tab, hidden_wiki_tab] PNone" "()" None True,
       THEN conjunct2, THEN mp, OF plain]
    by (simp add: course_with_def courseware_tab_def hidden_wiki_tab_def wiki_type_def)
  show ?thesis by (rule conjI [OF user staff])
qed

theorem iterate_displayable_collection_counterexample:
  "tabs (course_with [pdf_textbooks_tab] PNone) = [pdf_textbooks_tab]
   \<and> is_enabled pdf_textbooks_tab (descriptor (course_with [pdf_textbooks_tab] PNone)) () None
   \<and> iterate_displayable (course_with [pdf_textbooks_tab] PNone) () None True = Inr []"
  by (simp add: course_with_def pdf_textbooks_tab_def pdf_textbooks_type_def CourseViewTab_init_def
      iterate_displayable_def displayable_def and_then_def)

subsection \<open>Displayable tabs: collections\<close>

text \<open>
  C4, as the code has it. A stored collection tab that meets the condition is
  replaced by its items, in their order, when collections are inlined, and is yielded
  itself exactly when it has an item otherwise. Items are not expanded further: with
  inlining, a yielded collection tab is always an item of a stored collection, so no
  collection tab is yielded when no item is one. Without inlining, no collection tab
  whose items are empty is yielded.
\<close>

theorem iterate_displayable_collections:
  "(\<exists>pieces. length pieces = length (tabs course)
      \<and> iterate_displayable course settings user inline_collections = Inr (concat pieces)
      \<and> (\<forall>i < length (tabs course).
            passes course settings user (tabs course ! i) \<and> is_collection (tabs course ! i) \<longrightarrow>
            (\<exists>its. items (tabs course ! i) (descriptor course) = Inr its
               \<and> pieces ! i = (if inline_collections then its
                                else if its \<noteq> [] then [tabs course ! i] else []))))
   \<and> (\<exists>ys. iterate_displayable course settings user True = Inr ys
         \<and> (\<forall>t \<in> set ys. is_collection t \<longrightarrow>
               (\<exists>s \<in> set (tabs course). is_collection s
                  \<and> items s (descriptor course) = Inr (view_items (course_view_type s) (descriptor course))
                  \<and> t \<in> set (view_items (course_view_type s) (descriptor course))))
         \<and> ((\<forall>s \<in> set (tabs course). \<forall>its. is_collection s \<longrightarrow>
                 items s (descriptor course) = Inr its \<longrightarrow> (\<forall>t \<in> set its. \<not> is_collection t))
              \<longrightarrow> (\<forall>t \<in> set ys. \<not> is_collection t)))
   \<and> (\<exists>ys. iterate_displayable course settings user False = Inr ys
         \<and> (\<forall>t \<in> set ys. is_collection t \<longrightarrow> items t (descriptor course) \<noteq> Inr []))"
proof (intro conjI)
  obtain pieces where pieces: "length pieces = length (tabs course)"
    "\<forall>i < length (tabs course).
        displayable course settings user inline_collections (tabs course ! i) = Inr (pieces ! i)"
    "iterate_loop course settings user inline_collections (tabs course) = Inr (concat pieces)"
    using iterate_loop_pieces [of "tabs course" course settings user inline_collections] by auto
  have "\<forall>i < length (tabs course).
            passes course settings user (tabs course ! i) \<and> is_collection (tabs course ! i) \<longrightarrow>
            (\<exists>its. items (tabs course ! i) (descriptor course) = Inr its
               \<and> pieces ! i = (if inline_collections then its
                                else if its \<noteq> [] then [tabs course ! i] else []))"
  proof (intro allI impI)
    fix i assume i: "i < length (tabs course)"
      and pc: "passes course settings user (tabs course ! i) \<and> is_collection (tabs course ! i)"
    from i pieces(2) have d: "displayable course settings user inline_collections (tabs course ! i)
        = Inr (pieces ! i)" by simp
    from pc have its: "items (tabs course ! i) (descriptor course)
        = Inr (view_items (course_view_type (tabs course ! i)) (descriptor course))"
      by (simp add: is_collection_view)
    have "pieces ! i = (if inline_collections then view_items (course_view_type (tabs course ! i)) (descriptor course)
                        else if view_items (course_view_type (tabs course ! i)) (descriptor course) \<noteq> []
                             then [tabs course ! i] else [])"
    proof (cases inline_collections)
      case True
      with d pc its show ?thesis
        using displayable_inline [where course = course and tab = "tabs course ! i"
            and settings = settings and user = user]
        by auto
    next
      case False
      with d pc show ?thesis
        using displayable_not_inline [where course = course and tab = "tabs course ! i"
            and settings = settings and user = user]
        by auto
    qed
    with its show "\<exists>its. items (tabs course ! i) (descriptor course) = Inr its
               \<and> pieces ! i = (if inline_collections then its
                                else if its \<noteq> [] then [tabs course ! i] else [])"
      by simp
  qed
  with pieces(1,3) show "\<exists>pieces. length pieces = length (tabs course)
      \<and> iterate_displayable course settings user inline_collections = Inr (concat pieces)
      \<and> (\<forall>i < length (tabs course).
            passes course settings user (tabs course ! i) \<and> is_collection (tabs course ! i) \<longrightarrow>
            (\<exists>its. items (tabs course ! i) (descriptor course) = Inr its
               \<and> pieces ! i = (if inline_collections then its
                                else if its \<noteq> [] then [tabs course ! i] else [])))"
    unfolding iterate_displayable_def by blast
next
  obtain ys where ys: "iterate_loop course settings user True (tabs course) = Inr ys"
    using iterate_loop_pieces [of "tabs course" course settings user True] by auto
  have from_items: "\<forall>t \<in> set ys. is_collection t \<longrightarrow>
               (\<exists>s \<in> set (tabs course). is_collection s
                  \<and> items s (descriptor course) = Inr (view_items (course_view_type s) (descriptor course))
                  \<and> t \<in> set (view_items (course_view_type s) (descriptor course)))"
  proof (intro ballI impI)
    fix t assume t: "t \<in> set ys" and coll: "is_collection t"
    from iterate_loop_member [OF ys t] obtain s p where s: "s \<in> set (tabs course)"
      and p: "displayable course settings user True s = Inr p" "t \<in> set p" by blast
    from displayable_member [OF p] coll
    have "is_collection s \<and> t \<in> set (view_items (course_view_type s) (descriptor course))"
      by auto
    with s show "\<exists>s \<in> set (tabs course). is_collection s
                  \<and> items s (descriptor course) = Inr (view_items (course_view_type s) (descriptor course))
                  \<and> t \<in> set (view_items (course_view_type s) (descriptor course))"
      by (auto simp: is_collection_view)
  qed
  have none: "(\<forall>s \<in> set (tabs course). \<forall>its. is_collection s \<longrightarrow>
                 items s (descriptor course) = Inr its \<longrightarrow> (\<forall>t \<in> set its. \<not> is_collection t))
              \<longrightarrow> (\<forall>t \<in> set ys. \<not> is_collection t)"
    using from_items by blast
  from ys from_items none
  show "\<exists>ys. iterate_displayable course settings user True = Inr ys
         \<and> (\<forall>t \<in> set ys. is_collection t \<longrightarrow>
               (\<exists>s \<in> set (tabs course). is_collection s
                  \<and> items s (descriptor course) = Inr (view_items (course_view_type s) (descriptor course))
                  \<and> t \<in> set (view_items (course_view_type s) (descriptor course))))
         \<and> ((\<forall>s \<in> set (tabs course). \<forall>its. is_collection s \<longrightarrow>
                 items s (descriptor course) = Inr its \<longrightarrow> (\<forall>t \<in> set its. \<not> is_collection t))
              \<longrightarrow> (\<forall>t \<in> set ys. \<not> is_collection t))"
    unfolding iterate_displayable_def by blast
next
  obtain ys where ys: "iterate_loop course settings user False (tabs course) = Inr ys"
    using iterate_loop_pieces [of "tabs course" course settings user False] by auto
  have "\<forall>t \<in> set ys. is_collection t \<longrightarrow> items t (descriptor course) \<noteq> Inr []"
  proof (intro ballI impI)
    fix t assume t: "t \<in> set ys" and coll: "is_collection t"
    from iterate_loop_member [OF ys t] obtain s p where
      p: "displayable course settings user False s = Inr p" "t \<in> set p" by blast
    from displayable_member [OF p] coll
    have "view_items (course_view_type t) (descriptor course) \<noteq> []" by auto
    with coll show "items t (descriptor course) \<noteq> Inr []"
      by (simp add: is_collection_view)
  qed
  with ys show "\<exists>ys. iterate_displayable course settings user False = Inr ys
         \<and> (\<forall>t \<in> set ys. is_collection t \<longrightarrow> items t (descriptor course) \<noteq> Inr [])"
    unfolding iterate_displayable_def by blast
qed


theorem iterate_displayable_collections_witness:
  "iterate_displayable (course_with [courseware_tab, html_textbooks_tab, pdf_textbooks_tab] PNone)
       () None True
     = Inr [courseware_tab, book_tab]
   \<and> iterate_displayable (course_with [courseware_tab, html_textbooks_tab, pdf_textbooks_tab] PNone)
       () None False
     = Inr [courseware_tab, html_textbooks_tab]"
proof -
  note defs = course_with_def courseware_tab_def html_textbooks_tab_def html_textbooks_type_def
    pdf_textbooks_tab_def pdf_textbooks_type_def book_tab_def CourseViewTab_init_def
    iterate_displayable_def displayable_def and_then_def
  have inlined: "iterate_displayable
       (course_with [courseware_tab, html_textbooks_tab, pdf_textbooks_tab] PNone) () None True
     = Inr [courseware_tab, book_tab]"
    using iterate_displayable_collections
      [of "course_with [courseware_tab, html_textbooks_tab, pdf_textbooks_tab] PNone" "()" None True,
       THEN conjunct2, THEN conjunct1]
    by (simp add: defs)
  have kept: "iterate_displayable
       (course_with [courseware_tab, html_textbooks_tab, pdf_textbooks_tab] PNone) () None False
     = Inr [courseware_tab, html_textbooks_tab]"
    using iterate_displayable_collections
      [of "course_with [courseware_tab, html_textbooks_tab, pdf_textbooks_tab] PNone" "()" None False,
       THEN conjunct2, THEN conjunct2]
    by (simp add: defs)
  show ?thesis by (rule conjI [OF inlined kept])
qed

theorem iterate_displayable_nested_collection_counterexample:
  "iterate_displayable (course_with [textbooks_tab] PNone) () None True = Inr [pdf_textbooks_tab]
   \<and> is_collection pdf_textbooks_tab"
  by (simp add: course_with_def textbooks_tab_def textbooks_type_def
      pdf_textbooks_tab_def pdf_textbooks_type_def CourseViewTab_init_def
      iterate_displayable_def displayable_def and_then_def)

subsection \<open>Deserialization of the list\<close>

lemma get_plugin_unknown:
  "\<not> known_type registry tab_dict \<longleftrightarrow>
   get_plugin registry (dict_get tab_dict ''type'' PNone) = Inl PluginError"
proof (cases "dict_get tab_dict ''type'' PNone")
  case (PStr n)
  have "find (\<lambda>p. plugin_name p = n) registry = None \<longleftrightarrow> \<not> (\<exists>p \<in> set registry. plugin_name p = n)"
    by (auto simp: find_None_iff)
  with PStr show ?thesis
    by (auto simp: known_type_def split: option.splits)
qed (simp_all add: known_type_def)

lemma get_plugin_known:
  "known_type registry tab_dict \<Longrightarrow>
   \<exists>p. get_plugin registry (dict_get tab_dict ''type'' PNone) = Inr p"
  using get_plugin_unknown [of registry tab_dict]
  by (cases "dict_get tab_dict ''type'' PNone")
     (auto simp: known_type_def split: option.splits)

lemma CourseTab_from_json_unknown:
  "\<not> known_type registry tab_dict \<Longrightarrow>
   CourseTab_from_json registry tab_dict = ([dict_get tab_dict ''type'' PNone], Inr None)"
  by (simp add: CourseTab_from_json_def get_plugin_unknown)

lemma CourseTab_from_json_known:
  "known_type registry tab_dict \<Longrightarrow> fst (CourseTab_from_json registry tab_dict) = []"
  using get_plugin_known [of registry tab_dict]
  by (auto simp: CourseTab_from_json_def)

lemma CourseTab_from_json_known_not_None:
  "known_type registry tab_dict \<Longrightarrow> snd (CourseTab_from_json registry tab_dict) \<noteq> Inr None"
  using get_plugin_known [of registry tab_dict]
  by (auto simp: CourseTab_from_json_def and_then_def split: sum.splits plugin.splits prod.splits)

lemma snd_log_then:
  "snd (log_then m f) = (case snd m of Inl e \<Rightarrow> Inl e | Inr v \<Rightarrow> snd (f v))"
  by (cases m) (auto simp: log_then_def split: sum.splits prod.splits)

lemma from_json_loop_known:
  "snd (from_json_loop registry vs) = snd (from_json_loop registry (filter (known_type registry) vs))"
proof (induction vs)
  case Nil
  then show ?case by simp
next
  case (Cons d rest)
  show ?case
  proof (cases "known_type registry d")
    case True
    then show ?thesis using Cons.IH
      by (simp add: snd_log_then split: sum.splits)
  next
    case False
    then show ?thesis using Cons.IH
      by (simp add: snd_log_then CourseTab_from_json_unknown split: sum.splits)
  qed
qed

lemma from_json_loop_all2:
  "\<forall>d \<in> set vs. \<exists>t. CourseTab_from_json registry d = ([], Inr (Some t)) \<Longrightarrow>
   \<exists>ts. from_json_loop registry vs = ([], Inr ts)
      \<and> list_all2 (\<lambda>d t. CourseTab_from_json registry d = ([], Inr (Some t))) vs ts"
proof (induction vs)
  case Nil
  then show ?case by simp
next
  case (Cons d rest)
  then obtain t where t: "CourseTab_from_json registry d = ([], Inr (Some t))" by auto
  from Cons obtain ts where ts: "from_json_loop registry rest = ([], Inr ts)"
    "list_all2 (\<lambda>d t. CourseTab_from_json registry d = ([], Inr (Some t))) rest ts" by auto
  have "from_json_loop registry (d # rest) = ([], Inr (t # ts))"
    using t ts(1) by (simp add: log_then_def)
  with t ts(2) show ?case by simp
qed

lemma validate_tabs_total:
  "validate_tabs tab_list = Inr () \<or> validate_tabs tab_list = Inl InvalidTabsException"
  by (cases tab_list) (simp_all add: validate_tabs_def like_get_type validate_each_type_iff and_then_def)

text \<open>
  C6. For a record whose \<open>type\<close> value no registered descriptor carries,
  \<open>CourseTab.from_json\<close> logs the unknown name and returns no tab; it does not raise.
  On a list that passes validation, \<open>CourseTabList.from_json\<close> has the outcome of the
  loop over the records of known type alone: when each of those deserializes to a
  tab, the result is exactly these tabs, in the order of their records.
\<close>

theorem from_json_skips_unknown:
  fixes registry :: "('c, 's, 'u) plugin list"
  shows
  "(\<not> known_type registry tab_dict \<longrightarrow>
      CourseTab_from_json registry tab_dict = ([dict_get tab_dict ''type'' PNone], Inr None))
   \<and> (validate_tabs (Some (map (DictObj :: tab_dict \<Rightarrow> ('c, 's, 'u) tab_like) vs)) = Inr () \<longrightarrow>
        snd (CourseTabList_from_json registry (Some vs))
          = snd (from_json_loop registry (filter (known_type registry) vs))
        \<and> ((\<forall>d \<in> set vs. known_type registry d \<longrightarrow>
               (\<exists>t. CourseTab_from_json registry d = ([], Inr (Some t)))) \<longrightarrow>
            (\<exists>ts. snd (CourseTabList_from_json registry (Some vs)) = Inr ts
               \<and> list_all2 (\<lambda>d t. CourseTab_from_json registry d = ([], Inr (Some t)))
                    (filter (known_type registry) vs) ts)))"
proof (intro conjI impI)
  assume "\<not> known_type registry tab_dict"
  then show "CourseTab_from_json registry tab_dict = ([dict_get tab_dict ''type'' PNone], Inr None)"
    by (rule CourseTab_from_json_unknown)
next
  assume valid: "validate_tabs (Some (map (DictObj :: tab_dict \<Rightarrow> ('c, 's, 'u) tab_like) vs)) = Inr ()"
  then have whole: "CourseTabList_from_json registry (Some vs) = from_json_loop registry vs"
    by (simp add: CourseTabList_from_json_def)
  then show filtered: "snd (CourseTabList_from_json registry (Some vs))
          = snd (from_json_loop registry (filter (known_type registry) vs))"
    using from_json_loop_known [of registry vs] by simp
  assume "\<forall>d \<in> set vs. known_type registry d \<longrightarrow>
               (\<exists>t. CourseTab_from_json registry d = ([], Inr (Some t)))"
  then have "\<forall>d \<in> set (filter (known_type registry) vs).
               \<exists>t. CourseTab_from_json registry d = ([], Inr (Some t))" by simp
  from from_json_loop_all2 [OF this] obtain ts where
    ts: "from_json_loop registry (filter (known_type registry) vs) = ([], Inr ts)"
      "list_all2 (\<lambda>d t. CourseTab_from_json registry d = ([], Inr (Some t)))
         (filter (known_type registry) vs) ts" by blast
  from filtered ts(1) have "snd (CourseTabList_from_json registry (Some vs)) = Inr ts" by simp
  with ts(2) show "\<exists>ts. snd (CourseTabList_from_json registry (Some vs)) = Inr ts
               \<and> list_all2 (\<lambda>d t. CourseTab_from_json registry d = ([], Inr (Some t)))
                    (filter (known_type registry) vs) ts" by blast
qed

theorem from_json_skips_unknown_witness:
  "CourseTab_from_json small_registry [(''type'', PStr ''unknown_widget'')] = ([PStr ''unknown_widget''], Inr None)
   \<and> snd (CourseTabList_from_json small_registry
        (Some [[(''type'', PStr ''courseware''), (''name'', PStr ''Courseware'')],
               [(''type'', PStr ''course_info''), (''name'', PStr ''Course Info'')],
               [(''type'', PStr ''unknown_widget'')],
               [(''type'', PStr ''wiki''), (''name'', PStr ''Wiki''), (''is_hidden'', PBool True)]]))
     = Inr [CourseViewTab_init courseware_type (Some [(''type'', PStr ''courseware''), (''name'', PStr ''Courseware'')]),
            CourseViewTab_init course_info_type (Some [(''type'', PStr ''course_info''), (''name'', PStr ''Course Info'')]),
            CourseViewTab_init wiki_type (Some [(''type'', PStr ''wiki''), (''name'', PStr ''Wiki''), (''is_hidden'', PBool True)])]"
proof -
  note defs = small_registry_def courseware_type_def course_info_type_def wiki_type_def
    always_valid_def known_type_def dict_get_def
  have unknown: "\<not> known_type small_registry [(''type'', PStr ''unknown_widget'')]"
    by (simp add: defs)
  have valid: "validate_tabs (Some (map (DictObj :: tab_dict \<Rightarrow> (unit, unit, unit) tab_like)
        [[(''type'', PStr ''courseware''), (''name'', PStr ''Courseware'')],
         [(''type'', PStr ''course_info''), (''name'', PStr ''Course Info'')],
         [(''type'', PStr ''unknown_widget'')],
         [(''type'', PStr ''wiki''), (''name'', PStr ''Wiki''), (''is_hidden'', PBool True)]])) = Inr ()"
    by (simp add: validate_tabs_def validate_num_tabs_of_type_def and_then_def dict_get_def)
  note inst = from_json_skips_unknown [of small_registry "[(''type'', PStr ''unknown_widget'')]"
        "[[(''type'', PStr ''courseware''), (''name'', PStr ''Courseware'')],
          [(''type'', PStr ''course_info''), (''name'', PStr ''Course Info'')],
          [(''type'', PStr ''unknown_widget'')],
          [(''type'', PStr ''wiki''), (''name'', PStr ''Wiki''), (''is_hidden'', PBool True)]]"]
  from inst unknown have first: "CourseTab_from_json small_registry [(''type'', PStr ''unknown_widget'')]
      = ([PStr ''unknown_widget''], Inr None)"
    by (simp add: dict_get_def)
  from inst valid have "snd (CourseTabList_from_json small_registry
        (Some [[(''type'', PStr ''courseware''), (''name'', PStr ''Courseware'')],
               [(''type'', PStr ''course_info''), (''name'', PStr ''Course Info'')],
               [(''type'', PStr ''unknown_widget'')],
               [(''type'', PStr ''wiki''), (''name'', PStr ''Wiki''), (''is_hidden'', PBool True)]]))
      = snd (from_json_loop small_registry (filter (known_type small_registry)
          [[(''type'', PStr ''courseware''), (''name'', PStr ''Courseware'')],
           [(''type'', PStr ''course_info''), (''name'', PStr ''Course Info'')],
           [(''type'', PStr ''unknown_widget'')],
           [(''type'', PStr ''wiki''), (''name'', PStr ''Wiki''), (''is_hidden'', PBool True)]]))"
    by simp
  also have "\<dots> = Inr [CourseViewTab_init courseware_type (Some [(''type'', PStr ''courseware''), (''name'', PStr ''Courseware'')]),
            CourseViewTab_init course_info_type (Some [(''type'', PStr ''course_info''), (''name'', PStr ''Course Info'')]),
            CourseViewTab_init wiki_type (Some [(''type'', PStr ''wiki''), (''name'', PStr ''Wiki''), (''is_hidden'', PBool True)])]"
    by (simp add: defs CourseTab_from_json_def log_then_def and_then_def)
  finally show ?thesis using first by simp
qed

text \<open>
  C7. When the records fail the validation of the list, \<open>CourseTabList.from_json\<close>
  raises \<open>InvalidTabsException\<close> and nothing else happens: nothing is logged and the
  outcome holds no tab, whatever the registry would have made of the records.
\<close>

theorem from_json_validates_first:
  fixes registry :: "('c, 's, 'u) plugin list"
  assumes "validate_tabs (Some (map (DictObj :: tab_dict \<Rightarrow> ('c, 's, 'u) tab_like) vs)) \<noteq> Inr ()"
  shows "CourseTabList_from_json registry (Some vs) = ([], Inl InvalidTabsException)"
  using assms validate_tabs_total [of "Some (map (DictObj :: tab_dict \<Rightarrow> ('c, 's, 'u) tab_like) vs)"]
  by (auto simp: CourseTabList_from_json_def)

theorem from_json_validates_first_witness:
  "CourseTabList_from_json small_registry
     (Some [[(''type'', PStr ''course_info''), (''name'', PStr ''Course Info'')],
            [(''type'', PStr ''courseware''), (''name'', PStr ''Courseware'')]])
   = ([], Inl InvalidTabsException)"
proof -
  have invalid: "validate_tabs (Some (map (DictObj :: tab_dict \<Rightarrow> (unit, unit, unit) tab_like)
        [[(''type'', PStr ''course_info''), (''name'', PStr ''Course Info'')],
         [(''type'', PStr ''courseware''), (''name'', PStr ''Courseware'')]])) \<noteq> Inr ()"
    by (simp add: validate_tabs_def and_then_def dict_get_def)
  show ?thesis by (rule from_json_validates_first [OF invalid])
qed

subsection \<open>The discussion tab\<close>

lemma first_discussion_tab_find:
  "first_discussion_tab ts
     = find (\<lambda>tab. type tab = ''discussion'' \<or> type tab = ''external_discussion'') ts"
  by (induction ts) simp_all

lemma external_discussion_from_json:
  assumes "get_plugin registry (PStr ''external_discussion'') = Inr ExternalDiscussionTab"
  shows "CourseTab_from_json registry
           [(''type'', PStr ''external_discussion''), (''name'', PStr ''External Discussion''),
            (''link'', l)]
         = ([], Inr (Some (CourseTab ''external_discussion'' (PStr ''External Discussion'') PNone
                             (link_value_func l))))"
  using assms
  by (simp add: CourseTab_from_json_def dict_get_def ExternalDiscussionTab_def key_checker_def
      dict_getitem_def and_then_def)

text \<open>
  C5. When the course has a non-empty \<open>discussion_link\<close>, \<open>get_discussion\<close> returns
  the tab that \<open>CourseTab.from_json\<close> builds from the record of type
  \<open>external_discussion\<close> carrying that link, whatever the stored tabs are; with the
  external discussion tab class registered, this is a tab of type
  \<open>external_discussion\<close> whose link function returns the course's link. When the
  link is empty, the result is the first stored tab of type \<open>discussion\<close> or
  \<open>external_discussion\<close>, and nothing when there is none.
\<close>

theorem get_discussion_override:
  assumes "get_plugin registry (PStr ''external_discussion'') = Inr ExternalDiscussionTab"
  shows "(truthy (discussion_link course) \<longrightarrow>
            get_discussion registry course
              = ([], Inr (Some (CourseTab ''external_discussion'' (PStr ''External Discussion'') PNone
                                  (link_value_func (discussion_link course)))))
            \<and> get_discussion registry (course\<lparr>tabs := stored\<rparr>) = get_discussion registry course
            \<and> call_link (link_value_func (discussion_link course)) course reverse_url_func
                = discussion_link course)
         \<and> (\<not> truthy (discussion_link course) \<longrightarrow>
            get_discussion registry course
              = ([], Inr (find (\<lambda>tab. type tab = ''discussion'' \<or> type tab = ''external_discussion'')
                            (tabs course))))"
  using external_discussion_from_json [OF assms]
  by (simp add: get_discussion_def first_discussion_tab_find call_link_def)

theorem get_discussion_override_witness:
  "get_discussion [ViewType wiki_type, ExternalDiscussionTab]
       (course_with [courseware_tab, CourseTab ''discussion'' (PStr ''Discussion'') (PStr ''discussion'')
                       (link_reverse_func ''forum'')] (PStr ''http://forum.example''))
     = ([], Inr (Some (CourseTab ''external_discussion'' (PStr ''External Discussion'') PNone
                         (link_value_func (PStr ''http://forum.example'')))))
   \<and> get_discussion [ViewType wiki_type, ExternalDiscussionTab]
       (course_with [courseware_tab, CourseTab ''discussion'' (PStr ''Discussion'') (PStr ''discussion'')
                       (link_reverse_func ''forum'')] (PStr ''''))
     = ([], Inr (Some (CourseTab ''discussion'' (PStr ''Discussion'') (PStr ''discussion'')
                         (link_reverse_func ''forum''))))"
proof -
  have registered: "get_plugin [ViewType wiki_type, ExternalDiscussionTab :: (unit, unit, unit) plugin]
      (PStr ''external_discussion'') = Inr ExternalDiscussionTab"
    by (simp add: wiki_type_def ExternalDiscussionTab_def)
  have override: "get_discussion [ViewType wiki_type, ExternalDiscussionTab]
       (course_with [courseware_tab, CourseTab ''discussion'' (PStr ''Discussion'') (PStr ''discussion'')
                       (link_reverse_func ''forum'')] (PStr ''http://forum.example''))
     = ([], Inr (Some (CourseTab ''external_discussion'' (PStr ''External Discussion'') PNone
                         (link_value_func (PStr ''http://forum.example'')))))"
    using get_discussion_override [OF registered,
        of "course_with [courseware_tab, CourseTab ''discussion'' (PStr ''Discussion'')
              (PStr ''discussion'') (link_reverse_func ''forum'')] (PStr ''http://forum.example'')"]
    by (simp add: course_with_def)
  have stored: "get_discussion [ViewType wiki_type, ExternalDiscussionTab]
       (course_with [courseware_tab, CourseTab ''discussion'' (PStr ''Discussion'') (PStr ''discussion'')
                       (link_reverse_func ''forum'')] (PStr ''''))
     = ([], Inr (Some (CourseTab ''discussion'' (PStr ''Discussion'') (PStr ''discussion'')
                         (link_reverse_func ''forum''))))"
    using get_discussion_override [OF registered,
        of "course_with [courseware_tab, CourseTab ''discussion'' (PStr ''Discussion'')
              (PStr ''discussion'') (link_reverse_func ''forum'')] (PStr '''')"]
    by (simp add: course_with_def courseware_tab_def)
  show ?thesis by (rule conjI [OF override stored])
qed

subsection \<open>The default tabs\<close>

lemma get_plugin_name:
  "get_plugin registry v = Inr p \<Longrightarrow> v = PStr (plugin_name p)"
  by (cases v) (auto simp: find_Some_iff split: option.splits)

lemma accepts_tab:
  assumes "accepts registry tab_dict"
  shows "\<exists>t. CourseTab_from_json registry tab_dict = ([], Inr (Some t))
           \<and> PStr (type t) = dict_get tab_dict ''type'' PNone"
proof (cases "get_plugin registry (dict_get tab_dict ''type'' PNone)")
  case (Inl e)
  with assms show ?thesis
    by (cases e) (simp_all add: accepts_def CourseTab_from_json_def)
next
  case (Inr p)
  note name = get_plugin_name [OF Inr]
  show ?thesis
  proof (cases p)
    case (ViewType cvt)
    with Inr assms name show ?thesis
      by (auto simp: accepts_def CourseTab_from_json_def and_then_def CourseViewTab_init_def
          split: sum.splits)
  next
    case (TabClass ty v init)
    with Inr assms name show ?thesis
      by (auto simp: accepts_def CourseTab_from_json_def and_then_def
          split: sum.splits prod.splits)
  qed
qed

lemma validate_tabs_types:
  assumes "map like_type ts = map PStr tys" and "length tys \<ge> 2"
    and "tys ! 0 = ''courseware''" and "tys ! 1 = ''course_info''"
    and "\<forall>ty \<in> {''courseware'', ''course_info'', ''notes'', ''textbooks'',
                   ''pdf_textbooks'', ''html_textbooks''}. length (filter (\<lambda>x. x = ty) tys) \<le> 1"
  shows "validate_tabs (Some ts) = Inr ()"
proof -
  from assms(1) have len: "length ts = length tys" by (metis length_map)
  have nth: "like_type (ts ! i) = PStr (tys ! i)" if "i < length tys" for i
    using assms(1) that len by (metis nth_map)
  have count: "length (filter (\<lambda>tab. like_type tab = PStr ty) ts) = length (filter (\<lambda>x. x = ty) tys)" for ty
  proof -
    have "length (filter (\<lambda>tab. like_type tab = PStr ty) ts)
        = length (filter (\<lambda>v. v = PStr ty) (map like_type ts))"
      by (simp add: filter_map comp_def)
    also have "\<dots> = length (filter (\<lambda>v. v = PStr ty) (map PStr tys))" using assms(1) by simp
    also have "\<dots> = length (filter (\<lambda>x. x = ty) tys)" by (simp add: filter_map comp_def)
    finally show ?thesis .
  qed
  from assms(2) len have "ts \<noteq> []" "\<not> length ts < 2" by auto
  moreover have "like_type (ts ! 0) = PStr ''courseware''" "like_type (ts ! 1) = PStr ''course_info''"
  proof -
    from assms(2) have "0 < length tys" "1 < length tys" by auto
    then show "like_type (ts ! 0) = PStr ''courseware''" "like_type (ts ! 1) = PStr ''course_info''"
      using nth [of 0] nth [of 1] assms(3,4) by simp_all
  qed
  ultimately show ?thesis
    using assms(5)
    by (simp add: validate_tabs_def like_get_type validate_each_type_iff and_then_def count)
qed


text \<open>
  C9. With every built-in tab type registered, so that the registry accepts each of
  the default records, \<open>initialize_default\<close> appends to \<open>course.tabs\<close> tabs of the
  types \<open>courseware\<close>, \<open>course_info\<close>, \<open>syllabus\<close> (only when the course declares a
  syllabus), \<open>textbooks\<close>, \<open>external_discussion\<close> when the course has a discussion
  link and \<open>discussion\<close> otherwise, \<open>wiki\<close> and \<open>progress\<close>, in this order, and
  logs nothing. The appended list passes \<open>validate_tabs\<close>; it is the whole list when
  the course had no tabs before.
\<close>

theorem initialize_default_valid:
  assumes "list_all (accepts registry)
      [[(''type'', PStr ''courseware''), (''name'', PStr ''Courseware'')],
       [(''type'', PStr ''course_info''), (''name'', PStr ''Course Info'')],
       [(''type'', PStr ''syllabus''), (''name'', PStr ''Syllabus'')],
       [(''type'', PStr ''textbooks''), (''name'', PStr ''Textbooks'')],
       [(''type'', PStr ''discussion''), (''name'', PStr ''Discussion'')],
       [(''type'', PStr ''external_discussion''), (''name'', PStr ''External Discussion''),
        (''link'', discussion_link course)],
       [(''type'', PStr ''wiki''), (''name'', PStr ''Wiki'')],
       [(''type'', PStr ''progress''), (''name'', PStr ''Progress'')]]"
  shows "\<exists>new. initialize_default registry course = ([], Inr (map Some (tabs course @ new)))
           \<and> map type new =
               [''courseware'', ''course_info'']
               @ (if (case syllabus_present course of None \<Rightarrow> False | Some v \<Rightarrow> truthy v)
                  then [''syllabus''] else [])
               @ [''textbooks'',
                  if truthy (discussion_link course) then ''external_discussion'' else ''discussion'',
                  ''wiki'', ''progress'']
           \<and> validate_tabs (Some (map TabObj new)) = Inr ()"
proof -
  from assms have "accepts registry [(''type'', PStr ''courseware''), (''name'', PStr ''Courseware'')]" by simp
  from accepts_tab [OF this] obtain cw where cw:
    "CourseTab_from_json registry [(''type'', PStr ''courseware''), (''name'', PStr ''Courseware'')] = ([], Inr (Some cw))"
    "type cw = ''courseware''"
    by (auto simp: dict_get_def)
  from assms have "accepts registry [(''type'', PStr ''course_info''), (''name'', PStr ''Course Info'')]" by simp
  from accepts_tab [OF this] obtain ci where ci:
    "CourseTab_from_json registry [(''type'', PStr ''course_info''), (''name'', PStr ''Course Info'')] = ([], Inr (Some ci))"
    "type ci = ''course_info''"
    by (auto simp: dict_get_def)
  from assms have "accepts registry [(''type'', PStr ''syllabus''), (''name'', PStr ''Syllabus'')]" by simp
  from accepts_tab [OF this] obtain sy where sy:
    "CourseTab_from_json registry [(''type'', PStr ''syllabus''), (''name'', PStr ''Syllabus'')] = ([], Inr (Some sy))"
    "type sy = ''syllabus''"
    by (auto simp: dict_get_def)
  from assms have "accepts registry [(''type'', PStr ''textbooks''), (''name'', PStr ''Textbooks'')]" by simp
  from accepts_tab [OF this] obtain tb where tb:
    "CourseTab_from_json registry [(''type'', PStr ''textbooks''), (''name'', PStr ''Textbooks'')] = ([], Inr (Some tb))"
    "type tb = ''textbooks''"
    by (auto simp: dict_get_def)
  from assms have "accepts registry [(''type'', PStr ''discussion''), (''name'', PStr ''Discussion'')]" by simp
  from accepts_tab [OF this] obtain di where di:
    "CourseTab_from_json registry [(''type'', PStr ''discussion''), (''name'', PStr ''Discussion'')] = ([], Inr (Some di))"
    "type di = ''discussion''"
    by (auto simp: dict_get_def)
  from assms have "accepts registry [(''type'', PStr ''wiki''), (''name'', PStr ''Wiki'')]" by simp
  from accepts_tab [OF this] obtain wk where wk:
    "CourseTab_from_json registry [(''type'', PStr ''wiki''), (''name'', PStr ''Wiki'')] = ([], Inr (Some wk))"
    "type wk = ''wiki''"
    by (auto simp: dict_get_def)
  from assms have "accepts registry [(''type'', PStr ''progress''), (''name'', PStr ''Progress'')]" by simp
  from accepts_tab [OF this] obtain pr where pr:
    "CourseTab_from_json registry [(''type'', PStr ''progress''), (''name'', PStr ''Progress'')] = ([], Inr (Some pr))"
    "type pr = ''progress''"
    by (auto simp: dict_get_def)
  from assms have "accepts registry [(''type'', PStr ''external_discussion''), (''name'', PStr ''External Discussion''),
        (''link'', discussion_link course)]" by simp
  from accepts_tab [OF this] obtain ex where ex:
    "CourseTab_from_json registry [(''type'', PStr ''external_discussion''), (''name'', PStr ''External Discussion''),
        (''link'', discussion_link course)] = ([], Inr (Some ex))"
    "type ex = ''external_discussion''"
    by (auto simp: dict_get_def)
  define syllabus where "syllabus \<longleftrightarrow> (case syllabus_present course of None \<Rightarrow> False | Some v \<Rightarrow> truthy v)"
  define new where "new = [cw, ci] @ (if syllabus then [sy] else [])
      @ [tb, if truthy (discussion_link course) then ex else di, wk, pr]"
  have run: "initialize_default registry course = ([], Inr (map Some (tabs course @ new)))"
    unfolding initialize_default_def new_def syllabus_def
    by (simp add: cw(1) ci(1) sy(1) tb(1) di(1) ex(1) wk(1) pr(1) log_then_def)
  have types: "map type new =
               [''courseware'', ''course_info'']
               @ (if syllabus then [''syllabus''] else [])
               @ [''textbooks'',
                  if truthy (discussion_link course) then ''external_discussion'' else ''discussion'',
                  ''wiki'', ''progress'']"
    unfolding new_def
    by (simp add: cw(2) ci(2) sy(2) tb(2) di(2) ex(2) wk(2) pr(2))
  have like: "map like_type (map TabObj new) = map PStr (map type new)"
    by (simp add: comp_def)
  have valid: "validate_tabs (Some (map TabObj new)) = Inr ()"
    by (rule validate_tabs_types [OF like]) (simp_all add: types)
  from run types valid show ?thesis unfolding syllabus_def by blast
qed


theorem initialize_default_valid_witness:
  "initialize_default builtin_registry (course_with [] PNone)
     = ([], Inr (map Some
     [CourseViewTab_init courseware_type (Some [(''type'', PStr ''courseware''), (''name'', PStr ''Courseware'')]),
      CourseViewTab_init course_info_type (Some [(''type'', PStr ''course_info''), (''name'', PStr ''Course Info'')]),
      CourseViewTab_init textbooks_type (Some [(''type'', PStr ''textbooks''), (''name'', PStr ''Textbooks'')]),
      CourseViewTab_init discussion_type (Some [(''type'', PStr ''discussion''), (''name'', PStr ''Discussion'')]),
      CourseViewTab_init wiki_type (Some [(''type'', PStr ''wiki''), (''name'', PStr ''Wiki'')]),
      CourseViewTab_init progress_type (Some [(''type'', PStr ''progress''), (''name'', PStr ''Progress'')])]))
   \<and> validate_tabs (Some (map TabObj
     [CourseViewTab_init courseware_type (Some [(''type'', PStr ''courseware''), (''name'', PStr ''Courseware'')]),
      CourseViewTab_init course_info_type (Some [(''type'', PStr ''course_info''), (''name'', PStr ''Course Info'')]),
      CourseViewTab_init textbooks_type (Some [(''type'', PStr ''textbooks''), (''name'', PStr ''Textbooks'')]),
      CourseViewTab_init discussion_type (Some [(''type'', PStr ''discussion''), (''name'', PStr ''Discussion'')]),
      CourseViewTab_init wiki_type (Some [(''type'', PStr ''wiki''), (''name'', PStr ''Wiki'')]),
      CourseViewTab_init progress_type (Some [(''type'', PStr ''progress''), (''name'', PStr ''Progress'')])]))
     = Inr ()"
proof -
  note defs = builtin_registry_def courseware_type_def course_info_type_def syllabus_type_def
    textbooks_type_def discussion_type_def progress_type_def wiki_type_def
    ExternalDiscussionTab_def always_valid_def need_name_def key_checker_def
    CourseTab_from_json_def dict_get_def dict_getitem_def and_then_def course_with_def
  have accepted: "list_all (accepts builtin_registry)
      [[(''type'', PStr ''courseware''), (''name'', PStr ''Courseware'')],
       [(''type'', PStr ''course_info''), (''name'', PStr ''Course Info'')],
       [(''type'', PStr ''syllabus''), (''name'', PStr ''Syllabus'')],
       [(''type'', PStr ''textbooks''), (''name'', PStr ''Textbooks'')],
       [(''type'', PStr ''discussion''), (''name'', PStr ''Discussion'')],
       [(''type'', PStr ''external_discussion''), (''name'', PStr ''External Discussion''),
        (''link'', discussion_link (course_with [] PNone))],
       [(''type'', PStr ''wiki''), (''name'', PStr ''Wiki'')],
       [(''type'', PStr ''progress''), (''name'', PStr ''Progress'')]]"
    by (simp add: accepts_def defs)
  have run: "initialize_default builtin_registry (course_with [] PNone)
     = ([], Inr (map Some
     [CourseViewTab_init courseware_type (Some [(''type'', PStr ''courseware''), (''name'', PStr ''Courseware'')]),
      CourseViewTab_init course_info_type (Some [(''type'', PStr ''course_info''), (''name'', PStr ''Course Info'')]),
      CourseViewTab_init textbooks_type (Some [(''type'', PStr ''textbooks''), (''name'', PStr ''Textbooks'')]),
      CourseViewTab_init discussion_type (Some [(''type'', PStr ''discussion''), (''name'', PStr ''Discussion'')]),
      CourseViewTab_init wiki_type (Some [(''type'', PStr ''wiki''), (''name'', PStr ''Wiki'')]),
      CourseViewTab_init progress_type (Some [(''type'', PStr ''progress''), (''name'', PStr ''Progress'')])]))"
    by (simp add: initialize_default_def log_then_def defs)
  from initialize_default_valid [OF accepted] obtain new where
    new: "initialize_default builtin_registry (course_with [] PNone)
            = ([], Inr (map Some (tabs (course_with [] PNone) @ new)))"
      "validate_tabs (Some (map TabObj new)) = Inr ()"
    by blast
  from new(1) run have "map Some new = map Some
     [CourseViewTab_init courseware_type (Some [(''type'', PStr ''courseware''), (''name'', PStr ''Courseware'')]),
      CourseViewTab_init course_info_type (Some [(''type'', PStr ''course_info''), (''name'', PStr ''Course Info'')]),
      CourseViewTab_init textbooks_type (Some [(''type'', PStr ''textbooks''), (''name'', PStr ''Textbooks'')]),
      CourseViewTab_init discussion_type (Some [(''type'', PStr ''discussion''), (''name'', PStr ''Discussion'')]),
      CourseViewTab_init wiki_type (Some [(''type'', PStr ''wiki''), (''name'', PStr ''Wiki'')]),
      CourseViewTab_init progress_type (Some [(''type'', PStr ''progress''), (''name'', PStr ''Progress'')])]"
    by (simp add: course_with_def)
  then have "new =
     [CourseViewTab_init courseware_type (Some [(''type'', PStr ''courseware''), (''name'', PStr ''Courseware'')]),
      CourseViewTab_init course_info_type (Some [(''type'', PStr ''course_info''), (''name'', PStr ''Course Info'')]),
      CourseViewTab_init textbooks_type (Some [(''type'', PStr ''textbooks''), (''name'', PStr ''Textbooks'')]),
      CourseViewTab_init discussion_type (Some [(''type'', PStr ''discussion''), (''name'', PStr ''Discussion'')]),
      CourseViewTab_init wiki_type (Some [(''type'', PStr ''wiki''), (''name'', PStr ''Wiki'')]),
      CourseViewTab_init progress_type (Some [(''type'', PStr ''progress''), (''name'', PStr ''Progress'')])]"
    by (auto simp: map_eq_Cons_conv)
  with new(2) run show ?thesis by simp
qed

subsection \<open>Round trip through the serialized form\<close>

lemma to_json_values:
  "dict_get (CourseTab_to_json t) ''type'' dflt = PStr (type t)"
  "dict_get (CourseTab_to_json t) ''name'' dflt = name t"
  "CourseTab_to_json t \<noteq> []"
  by (cases t; simp add: dict_get_def Let_def)+

lemma to_json_is_hidden:
  "is_hidden t = Inr h \<Longrightarrow>
   map_of (CourseTab_to_json t) ''is_hidden'' = (if truthy h then Some (PBool True) else None)"
  by (cases t) (auto simp: Let_def)

lemma to_json_no_is_hidden:
  "is_hidden t = Inl e \<Longrightarrow> map_of (CourseTab_to_json t) ''is_hidden'' = None"
  by (cases t) (auto simp: Let_def)

lemma to_json_loop_tabs: "to_json_loop (map TabEntry ts) = map CourseTab_to_json ts"
  by (induction ts) simp_all

lemma CourseTabList_to_json_tabs:
  "CourseTabList_to_json (Some (map TabEntry ts)) = map CourseTab_to_json ts"
  by (cases ts) (simp_all add: CourseTabList_to_json_def to_json_loop_tabs)

lemma validate_tabs_like_type:
  assumes "map like_type xs = map like_type ys"
  shows "validate_tabs (Some xs) = validate_tabs (Some ys)"
proof -
  from assms have len: "length xs = length ys" by (metis length_map)
  have nth: "like_type (xs ! i) = like_type (ys ! i)" if "i < length xs" for i
    using assms that len by (metis nth_map)
  have count: "length (filter (\<lambda>tab. like_type tab = v) xs)
      = length (filter (\<lambda>tab. like_type tab = v) ys)" for v
  proof -
    have "length (filter (\<lambda>tab. like_type tab = v) xs)
        = length (filter (\<lambda>x. x = v) (map like_type xs))"
      by (simp add: filter_map comp_def)
    also have "\<dots> = length (filter (\<lambda>x. x = v) (map like_type ys))" using assms by simp
    also have "\<dots> = length (filter (\<lambda>tab. like_type tab = v) ys)"
      by (simp add: filter_map comp_def)
    finally show ?thesis .
  qed
  show ?thesis
  proof (cases "length xs < 2")
    case True
    with len show ?thesis by (simp add: validate_tabs_def)
  next
    case False
    then have "0 < length xs" "1 < length xs" by auto
    from nth [OF this(1)] nth [OF this(2)] len False show ?thesis
      by (simp add: validate_tabs_def like_get_type validate_each_type_iff and_then_def count)
  qed
qed

lemma roundtrip_one:
  assumes "known_valid registry t"
  shows "\<exists>n. CourseTab_from_json registry (CourseTab_to_json t) = ([], Inr (Some n))
           \<and> eq n (TabObj t) = Inr True
           \<and> (\<forall>cvt h. get_plugin registry (PStr (type t)) = Inr (ViewType cvt) \<longrightarrow>
                 is_hidden t = Inr h \<longrightarrow> is_hidden n = Inr (PBool (truthy h)))"
proof (cases "get_plugin registry (PStr (type t))")
  case (Inl e)
  with assms show ?thesis by (simp add: known_valid_def)
next
  case (Inr p)
  have name: "plugin_name p = type t"
    using Inr by (auto simp: find_Some_iff split: option.splits)
  from assms Inr obtain ok where ok: "plugin_validate p (CourseTab_to_json t) True = Inr ok"
    by (auto simp: known_valid_def split: sum.splits)
  show ?thesis
  proof (cases p)
    case (ViewType cvt)
    define n where "n = CourseViewTab_init cvt (Some (CourseTab_to_json t))"
    have run: "CourseTab_from_json registry (CourseTab_to_json t) = ([], Inr (Some n))"
      using Inr ok ViewType
      by (simp add: CourseTab_from_json_def to_json_values and_then_def n_def)
    have n: "type n = type t" "name n = name t"
      using name ViewType by (simp_all add: n_def CourseViewTab_init_def to_json_values)
    have same: "eq n (TabObj t) = Inr True"
      by (simp add: eq_valid n)
    have hidden: "is_hidden n = Inr (PBool (truthy h))" if "is_hidden t = Inr h" for h
      using to_json_is_hidden [OF that]
      by (auto simp: n_def CourseViewTab_init_def to_json_values dict_get_def)
    from run same hidden Inr ViewType show ?thesis by auto
  next
    case (TabClass ty v init)
    from assms Inr ok TabClass obtain i l where
      init: "init (CourseTab_to_json t) = Inr (name t, i, l)"
      by (auto simp: known_valid_def split: sum.splits prod.splits)
    define n :: "('a, 'b, 'c) course_tab" where "n = CourseTab ty (name t) i l"
    have run: "CourseTab_from_json registry (CourseTab_to_json t) = ([], Inr (Some n))"
      using Inr ok TabClass init
      by (simp add: CourseTab_from_json_def to_json_values and_then_def n_def)
    have n: "type n = type t" "name n = name t"
      using name TabClass by (simp_all add: n_def)
    have same: "eq n (TabObj t) = Inr True"
      by (simp add: eq_valid n)
    from run same Inr TabClass show ?thesis by auto
  qed
qed


lemma roundtrip_loop:
  assumes "\<forall>t \<in> set ts. known_valid registry t"
  shows "\<exists>new. from_json_loop registry (map CourseTab_to_json ts) = ([], Inr new)
           \<and> list_all2 (\<lambda>n t. eq n (TabObj t) = Inr True
                \<and> (\<forall>cvt h. get_plugin registry (PStr (type t)) = Inr (ViewType cvt) \<longrightarrow>
                      is_hidden t = Inr h \<longrightarrow> is_hidden n = Inr (PBool (truthy h)))) new ts"
  using assms
proof (induction ts)
  case Nil
  then show ?case by simp
next
  case (Cons t rest)
  then have "known_valid registry t" by simp
  from roundtrip_one [OF this] obtain n where
    n: "CourseTab_from_json registry (CourseTab_to_json t) = ([], Inr (Some n))"
      "eq n (TabObj t) = Inr True"
      "\<forall>cvt h. get_plugin registry (PStr (type t)) = Inr (ViewType cvt) \<longrightarrow>
                 is_hidden t = Inr h \<longrightarrow> is_hidden n = Inr (PBool (truthy h))"
    by blast
  from Cons obtain more where
    more: "from_json_loop registry (map CourseTab_to_json rest) = ([], Inr more)"
      "list_all2 (\<lambda>n t. eq n (TabObj t) = Inr True
                \<and> (\<forall>cvt h. get_plugin registry (PStr (type t)) = Inr (ViewType cvt) \<longrightarrow>
                      is_hidden t = Inr h \<longrightarrow> is_hidden n = Inr (PBool (truthy h)))) more rest"
    by auto
  have "from_json_loop registry (map CourseTab_to_json (t # rest)) = ([], Inr (n # more))"
    using n(1) more(1) by (simp add: log_then_def)
  with n(2,3) more(2) show ?case by simp
qed

text \<open>
  C2. For a list of tabs that passes validation and whose entries all have known,
  valid types, \<open>from_json (to_json tabs)\<close> logs nothing and returns a list of the
  same length whose elements equal those of \<open>tabs\<close> one by one under \<open>==\<close>. A tab
  serializes its \<open>is_hidden\<close> flag only when it is set, as \<open>True\<close>; deserialized as a
  course view tab it has the flag back: \<open>False\<close> when the key was left out.
\<close>

theorem from_json_to_json:
  fixes registry :: "('c, 's, 'u) plugin list"
  assumes "validate_tabs (Some (map TabObj ts)) = Inr ()"
    and "\<forall>t \<in> set ts. known_valid registry t"
  shows "\<exists>new. CourseTabList_from_json registry
                  (Some (CourseTabList_to_json (Some (map TabEntry ts)))) = ([], Inr new)
           \<and> list_all2 (\<lambda>n t. eq n (TabObj t) = Inr True) new ts
           \<and> list_all2 (\<lambda>n t. \<forall>h. is_hidden t = Inr h \<longrightarrow>
                 map_of (CourseTab_to_json t) ''is_hidden''
                   = (if truthy h then Some (PBool True) else None)
                 \<and> (\<forall>cvt. get_plugin registry (PStr (type t)) = Inr (ViewType cvt) \<longrightarrow>
                       is_hidden n = Inr (PBool (truthy h)))) new ts"
proof -
  have "map like_type (map (DictObj :: tab_dict \<Rightarrow> ('c, 's, 'u) tab_like) (map CourseTab_to_json ts))
      = map like_type (map TabObj ts)"
    by (simp add: to_json_values)
  from validate_tabs_like_type [OF this] assms(1)
  have valid: "validate_tabs (Some (map (DictObj :: tab_dict \<Rightarrow> ('c, 's, 'u) tab_like)
      (map CourseTab_to_json ts))) = Inr ()"
    by simp
  from roundtrip_loop [OF assms(2)] obtain new where
    new: "from_json_loop registry (map CourseTab_to_json ts) = ([], Inr new)"
      "list_all2 (\<lambda>n t. eq n (TabObj t) = Inr True
                \<and> (\<forall>cvt h. get_plugin registry (PStr (type t)) = Inr (ViewType cvt) \<longrightarrow>
                      is_hidden t = Inr h \<longrightarrow> is_hidden n = Inr (PBool (truthy h)))) new ts"
    by blast
  have run: "CourseTabList_from_json registry
                  (Some (CourseTabList_to_json (Some (map TabEntry ts)))) = ([], Inr new)"
    using valid new(1) by (simp add: CourseTabList_from_json_def CourseTabList_to_json_tabs)
  have same: "list_all2 (\<lambda>n t. eq n (TabObj t) = Inr True) new ts"
    using new(2) by (rule list_all2_mono) simp
  have hidden: "list_all2 (\<lambda>n t. \<forall>h. is_hidden t = Inr h \<longrightarrow>
                 map_of (CourseTab_to_json t) ''is_hidden''
                   = (if truthy h then Some (PBool True) else None)
                 \<and> (\<forall>cvt. get_plugin registry (PStr (type t)) = Inr (ViewType cvt) \<longrightarrow>
                       is_hidden n = Inr (PBool (truthy h)))) new ts"
    using new(2) by (rule list_all2_mono) (simp add: to_json_is_hidden)
  from run same hidden show ?thesis by blast
qed


theorem from_json_to_json_witness:
  "CourseTabList_from_json small_registry
     (Some (CourseTabList_to_json (Some (map TabEntry
     [CourseViewTab_init courseware_type None, CourseViewTab_init course_info_type None,
      hidden_wiki_tab]))))
   = ([], Inr
     [CourseViewTab_init courseware_type
        (Some [(''type'', PStr ''courseware''), (''name'', PStr ''Courseware'')]),
      CourseViewTab_init course_info_type
        (Some [(''type'', PStr ''course_info''), (''name'', PStr ''Course Info'')]),
      CourseViewTab_init wiki_type
        (Some [(''type'', PStr ''wiki''), (''name'', PStr ''Wiki''), (''is_hidden'', PBool True)])])
   \<and> eq (CourseViewTab_init courseware_type
        (Some [(''type'', PStr ''courseware''), (''name'', PStr ''Courseware'')]))
        (TabObj (CourseViewTab_init courseware_type None)) = Inr True
   \<and> eq (CourseViewTab_init course_info_type
        (Some [(''type'', PStr ''course_info''), (''name'', PStr ''Course Info'')]))
        (TabObj (CourseViewTab_init course_info_type None)) = Inr True
   \<and> eq (CourseViewTab_init wiki_type
        (Some [(''type'', PStr ''wiki''), (''name'', PStr ''Wiki''), (''is_hidden'', PBool True)]))
        (TabObj hidden_wiki_tab) = Inr True"
proof -
  note defs = small_registry_def courseware_type_def course_info_type_def wiki_type_def
    hidden_wiki_tab_def always_valid_def CourseViewTab_init_def dict_get_def
  have valid: "validate_tabs (Some (map TabObj
     [CourseViewTab_init courseware_type None, CourseViewTab_init course_info_type None,
      hidden_wiki_tab])) = Inr ()"
    by (simp add: validate_tabs_def validate_num_tabs_of_type_def and_then_def get_def defs)
  have known: "\<forall>t \<in> set
     [CourseViewTab_init courseware_type None, CourseViewTab_init course_info_type None,
      hidden_wiki_tab]. known_valid small_registry t"
    by (simp add: known_valid_def defs)
  from from_json_to_json [OF valid known] obtain new where
    new: "CourseTabList_from_json small_registry
       (Some (CourseTabList_to_json (Some (map TabEntry
       [CourseViewTab_init courseware_type None, CourseViewTab_init course_info_type None,
      hidden_wiki_tab])))) = ([], Inr new)"
      "list_all2 (\<lambda>n t. eq n (TabObj t) = Inr True) new
       [CourseViewTab_init courseware_type None, CourseViewTab_init course_info_type None,
      hidden_wiki_tab]"
    by blast
  have run: "CourseTabList_from_json small_registry
     (Some (CourseTabList_to_json (Some (map TabEntry
     [CourseViewTab_init courseware_type None, CourseViewTab_init course_info_type None,
      hidden_wiki_tab]))))
   = ([], Inr
     [CourseViewTab_init courseware_type
        (Some [(''type'', PStr ''courseware''), (''name'', PStr ''Courseware'')]),
      CourseViewTab_init course_info_type
        (Some [(''type'', PStr ''course_info''), (''name'', PStr ''Course Info'')]),
      CourseViewTab_init wiki_type
        (Some [(''type'', PStr ''wiki''), (''name'', PStr ''Wiki''), (''is_hidden'', PBool True)])])"
    by (simp add: CourseTabList_from_json_def CourseTabList_to_json_def validate_tabs_def
        validate_num_tabs_of_type_def CourseTab_from_json_def log_then_def and_then_def
        small_registry_def courseware_type_def course_info_type_def wiki_type_def
        hidden_wiki_tab_def always_valid_def dict_get_def
        CourseViewTab_init_def [of _ None])
  from new(1) run have "new =
     [CourseViewTab_init courseware_type
        (Some [(''type'', PStr ''courseware''), (''name'', PStr ''Courseware'')]),
      CourseViewTab_init course_info_type
        (Some [(''type'', PStr ''course_info''), (''name'', PStr ''Course Info'')]),
      CourseViewTab_init wiki_type
        (Some [(''type'', PStr ''wiki''), (''name'', PStr ''Wiki''), (''is_hidden'', PBool True)])]"
    by simp
  with new(2) run show ?thesis by simp
qed

end
